theory Spec2Isabelle
  imports Main "HOL-Library.Multiset"
begin

section \<open>The students table (part-1 and part-2)\<close>

text \<open>
  Both student applications keep one SQLite table,
  \<^verbatim>\<open>students(id INTEGER PRIMARY KEY AUTOINCREMENT, name, email, course)\<close>.
  A row is a record; the table is the list of its rows in insertion order together with
  the counter SQLite keeps for an AUTOINCREMENT key (the largest id ever handed out).
  Ids are unbounded integers: the 63-bit limit of a rowid is not modelled.
\<close>

record student =
  s_id :: int
  s_name :: string
  s_email :: string
  s_course :: string

record students_db =
  rows :: "student list"
  seq :: int

text \<open>
  SQLite stores an integer in 64 bits, signed. A Python integer outside that range cannot
  be bound as a statement parameter: the driver raises OverflowError, which no route
  catches.
\<close>

definition sqlite_int :: "int \<Rightarrow> bool" where
  "sqlite_int n \<longleftrightarrow> - (2 ^ 63) \<le> n \<and> n < 2 ^ 63"

datatype error = OverflowError | InvalidRequestError

text \<open>The id an AUTOINCREMENT insert assigns: one more than every id used so far.\<close>

definition next_rowid :: "students_db \<Rightarrow> int" where
  "next_rowid db = fold max (map s_id (rows db)) (seq db) + 1"

text \<open>
  \<^verbatim>\<open>INSERT INTO students (name, email, course) VALUES (?, ?, ?)\<close> on the part-1 table,
  which has no UNIQUE column: the insert always succeeds.
\<close>

definition insert_student :: "students_db \<Rightarrow> string \<times> string \<times> string \<Rightarrow> students_db" where
  "insert_student db v =
     (case v of (n, e, c) \<Rightarrow>
        \<lparr>rows = rows db @ [\<lparr>s_id = next_rowid db, s_name = n, s_email = e, s_course = c\<rparr>],
         seq = next_rowid db\<rparr>)"

subsection \<open>part-1: \<^verbatim>\<open>add_sample_student\<close>\<close>

definition sample_students :: "(string \<times> string \<times> string) list" where
  "sample_students =
     [(''Student 1'', ''student1@example.com'', ''Flask + Databases''),
      (''Student 2'', ''student2@example.com'', ''Python for Beginners''),
      (''Student 3'', ''student3@example.com'', ''Web Development with HTML/CSS''),
      (''Student 4'', ''student4@example.com'', ''APIs with Flask''),
      (''Student 5'', ''student5@example.com'', ''Intro to Data Science'')]"

text \<open>
  The route counts the rows, picks \<^verbatim>\<open>sample_students[count % len(sample_students)]\<close>
  (the index is below the length, so the read is in range), inserts it and answers with a
  fixed page. The result is the new table and the response body.
\<close>

definition add_sample_student :: "students_db \<Rightarrow> students_db \<times> string" where
  "add_sample_student db =
     (let existing_students_count = length (rows db);
          next_student = sample_students ! (existing_students_count mod length sample_students)
      in (insert_student db next_student,
          ''Sample student added! <a href=\"/\">Go back to home</a>''))"

subsection \<open>part-2: the form routes\<close>

text \<open>
  The part-2 table declares \<^verbatim>\<open>email TEXT NOT NULL UNIQUE\<close>. A route handler gets the
  table, the request (method, path id, form) and returns the table after the request, the
  messages it flashed (message and category) and the page it answered with. A form is the
  list of its fields; \<^verbatim>\<open>request.form[k]\<close> reads the first value of \<open>k\<close> and aborts with a
  400 response when the field is missing. An exception that a route does not catch ends
  in a 500 response, and the connection's context manager rolls the transaction back.
\<close>

datatype http_method = GET | POST

datatype page =
    Redirect string
  | RenderAdd
  | RenderEdit "student option"
  | BadRequest
  | ServerError

fun status_code :: "page \<Rightarrow> nat" where
  "status_code (Redirect endpoint) = 302"
| "status_code RenderAdd = 200"
| "status_code (RenderEdit student) = 200"
| "status_code BadRequest = 400"
| "status_code ServerError = 500"

type_synonym form = "(string \<times> string) list"

type_synonym flashes = "(string \<times> string) list"

text \<open>
  The INSERT of part-2: SQLite raises IntegrityError (here \<open>None\<close>) when a row with the
  same email exists, and adds the row otherwise.
\<close>

definition insert_unique :: "students_db \<Rightarrow> string \<times> string \<times> string \<Rightarrow> students_db option" where
  "insert_unique db v =
     (case v of (n, e, c) \<Rightarrow>
        (case find (\<lambda>r. s_email r = e) (rows db) of
           Some r \<Rightarrow> None
         | None \<Rightarrow> Some (insert_student db v)))"

text \<open>
  \<^verbatim>\<open>UPDATE students SET name = ?, email = ?, course = ? WHERE id = ?\<close>: every row with
  that id is rewritten. The statement raises (\<open>None\<close>) when the id cannot be bound
  (OverflowError), and when a row has the id and another row already has the new email
  (IntegrityError).
\<close>

definition update_rows :: "students_db \<Rightarrow> int \<Rightarrow> string \<times> string \<times> string \<Rightarrow> students_db option" where
  "update_rows db i v =
     (case v of (n, e, c) \<Rightarrow>
        (if \<not> sqlite_int i then None
         else if find (\<lambda>r. s_id r = i) (rows db) \<noteq> None \<and>
            find (\<lambda>r. s_id r \<noteq> i \<and> s_email r = e) (rows db) \<noteq> None
         then None
         else Some (db\<lparr>rows := map (\<lambda>r. if s_id r = i
                                        then r\<lparr>s_name := n, s_email := e, s_course := c\<rparr>
                                        else r) (rows db)\<rparr>)))"

text \<open>
  \<^verbatim>\<open>SELECT * FROM students WHERE id = ?\<close> with \<^verbatim>\<open>fetchone()\<close>, and
  \<^verbatim>\<open>DELETE FROM students WHERE id = ?\<close>; both raise OverflowError when the id cannot be
  bound.
\<close>

definition select_student :: "students_db \<Rightarrow> int \<Rightarrow> error + student option" where
  "select_student db i =
     (if sqlite_int i then Inr (find (\<lambda>r. s_id r = i) (rows db)) else Inl OverflowError)"

definition delete_rows :: "students_db \<Rightarrow> int \<Rightarrow> error + students_db" where
  "delete_rows db i =
     (if sqlite_int i then Inr (db\<lparr>rows := filter (\<lambda>r. s_id r \<noteq> i) (rows db)\<rparr>)
      else Inl OverflowError)"

definition add_student :: "students_db \<Rightarrow> http_method \<Rightarrow> form \<Rightarrow> students_db \<times> flashes \<times> page" where
  "add_student db method frm =
     (if method = POST then
        (case (map_of frm ''name'', map_of frm ''email'', map_of frm ''course'') of
           (Some student_name, Some student_email, Some student_course) \<Rightarrow>
           (case find (\<lambda>r. s_email r = student_email) (rows db) of
              Some existing_student \<Rightarrow>
                (db, [(''Email already exists!'', ''danger'')], Redirect ''add_student'')
            | None \<Rightarrow>
                (case insert_unique db (student_name, student_email, student_course) of
                   None \<Rightarrow> (db, [], ServerError)
                 | Some db' \<Rightarrow>
                     (db', [(''Student added successfully!'', ''success'')], Redirect ''index'')))
         | _ \<Rightarrow> (db, [], BadRequest))
      else (db, [], RenderAdd))"

definition edit_student :: "students_db \<Rightarrow> http_method \<Rightarrow> int \<Rightarrow> form \<Rightarrow> students_db \<times> flashes \<times> page" where
  "edit_student db method i frm =
     (if method = POST then
        (case (map_of frm ''name'', map_of frm ''email'', map_of frm ''course'') of
           (Some updated_name, Some updated_email, Some updated_course) \<Rightarrow>
           (case update_rows db i (updated_name, updated_email, updated_course) of
              None \<Rightarrow> (db, [], ServerError)
            | Some db' \<Rightarrow>
                (db', [(''Student updated successfully!'', ''success'')], Redirect ''index''))
         | _ \<Rightarrow> (db, [], BadRequest))
      else
        (case select_student db i of
           Inl e \<Rightarrow> (db, [], ServerError)
         | Inr student \<Rightarrow> (db, [], RenderEdit student)))"

definition delete_student :: "students_db \<Rightarrow> int \<Rightarrow> students_db \<times> flashes \<times> page" where
  "delete_student db i =
     (case delete_rows db i of
        Inl e \<Rightarrow> (db, [], ServerError)
      | Inr db' \<Rightarrow> (db', [(''Student deleted!'', ''danger'')], Redirect ''index''))"

section \<open>The Book/Author API (part-4)\<close>

subsection \<open>Tables\<close>

text \<open>
  Two tables, each the list of its rows in insertion order. The columns have the types the
  models declare; a nullable column is an \<open>option\<close>. \<^verbatim>\<open>created_at\<close> is an abstract
  time stamp (a number, ordered as time is). The integer primary keys are rowids without
  AUTOINCREMENT: an insert takes the largest id of the table plus one, and 1 in an empty
  table. (When the largest id is \<open>2^63 - 1\<close> SQLite tries ids at random and gives up with
  an error when it finds none free; the inserts below let that insert fail.)
\<close>

type_synonym timestamp = nat

record author =
  a_id :: int
  a_name :: string
  a_city :: string

record book =
  b_id :: int
  b_title :: string
  b_year :: "int option"
  b_isbn :: "string option"
  b_created_at :: "timestamp option"
  b_author_id :: int

record store =
  authors :: "author list"
  books :: "book list"


text \<open>
  \<^verbatim>\<open>db.session.get(Model, id)\<close> for an id taken from the request: the row with that
  primary key, if any; the SELECT raises OverflowError when the id cannot be bound.
\<close>

definition session_get_book :: "store \<Rightarrow> int \<Rightarrow> error + book option" where
  "session_get_book s i =
     (if sqlite_int i then Inr (find (\<lambda>b. b_id b = i) (books s)) else Inl OverflowError)"

definition session_get_author :: "store \<Rightarrow> int \<Rightarrow> error + author option" where
  "session_get_author s i =
     (if sqlite_int i then Inr (find (\<lambda>a. a_id a = i) (authors s)) else Inl OverflowError)"

text \<open>
  \<^verbatim>\<open>book.author_ref\<close>, the backref of \<^verbatim>\<open>Author.books\<close>: the Author row whose id is the
  stored \<^verbatim>\<open>author_id\<close> of the Book, \<open>None\<close> when there is no such row.
\<close>

definition author_ref :: "store \<Rightarrow> book \<Rightarrow> author option" where
  "author_ref s b = find (\<lambda>a. a_id a = b_author_id b) (authors s)"

subsection \<open>Request bodies\<close>

text \<open>
  \<^verbatim>\<open>request.get_json()\<close> gives \<open>None\<close> for the JSON value null and a dictionary for a
  JSON object. A key the handlers read is absent, null, or holds a value of the type of its
  column; the names of the other keys of the object are kept, since they make the
  dictionary non-empty. (JSON values of another type under these keys, and bodies that are
  neither null nor an object, are outside this model.)
\<close>

datatype 'a field = Absent | Null | Val 'a

text \<open>\<^verbatim>\<open>data.get(k)\<close> and \<^verbatim>\<open>data[k]\<close> on a present key: the value, \<open>None\<close> for null.\<close>

fun get_field :: "'a field \<Rightarrow> 'a option" where
  "get_field (Val v) = Some v"
| "get_field Null = None"
| "get_field Absent = None"

text \<open>\<^verbatim>\<open>k in data\<close>.\<close>

fun present :: "'a field \<Rightarrow> bool" where
  "present Absent = False"
| "present Null = True"
| "present (Val v) = True"



record book_data =
  d_title :: "string field"
  d_year :: "int field"
  d_isbn :: "string field"
  d_author_id :: "int field"
  d_other :: "string list"

record author_data =
  d_name :: "string field"
  d_city :: "string field"
  d_more :: "string list"

text \<open>\<^verbatim>\<open>not data\<close>: the body is null or an object without keys.\<close>

definition no_book_data :: "book_data option \<Rightarrow> bool" where
  "no_book_data data =
     (case data of None \<Rightarrow> True
      | Some d \<Rightarrow> \<not> present (d_title d) \<and> \<not> present (d_year d) \<and> \<not> present (d_isbn d) \<and>
                  \<not> present (d_author_id d) \<and> d_other d = [])"

definition no_author_data :: "author_data option \<Rightarrow> bool" where
  "no_author_data data =
     (case data of None \<Rightarrow> True
      | Some d \<Rightarrow> \<not> present (d_name d) \<and> \<not> present (d_city d) \<and> d_more d = [])"

subsection \<open>Responses\<close>

record book_dict =
  bd_id :: int
  bd_title :: string
  bd_year :: "int option"
  bd_isbn :: "string option"
  bd_author :: "int \<times> string"
  bd_created_at :: "timestamp option"

record author_dict =
  ad_id :: int
  ad_name :: string
  ad_city :: string
  ad_books :: "book_dict list"

record page_dict =
  pg_page :: int
  pg_per_page :: int
  pg_total_items :: nat
  pg_total_pages :: int
  pg_has_next :: bool
  pg_has_prev :: bool
  pg_books :: "book_dict list"

text \<open>
  The JSON document of a response: the error envelope, or the success envelope with its
  payload (an optional message with one object, a message alone, a list, a sorted list
  with the echoed parameters, a page). A response is its status code and its document.
\<close>

datatype body =
    Error string
  | OneBook "string option" book_dict
  | OneAuthor "string option" author_dict
  | Message string
  | Books "book_dict list"
  | SortedBooks string string "book_dict list"
  | PageOfBooks page_dict

type_synonym response = "nat \<times> body"

text \<open>What the 500 handler answers after an exception the route does not catch.\<close>

definition internal_error :: response where
  "internal_error = (500, Error ''Internal server error'')"

text \<open>
  \<^verbatim>\<open>Book.to_dict\<close> reads \<^verbatim>\<open>self.author_ref\<close>, the Author of the row's \<^verbatim>\<open>author_id\<close>;
  when there is none the attribute access on \<^verbatim>\<open>None\<close> raises (\<open>None\<close> here).
\<close>

definition book_to_dict :: "store \<Rightarrow> book \<Rightarrow> book_dict option" where
  "book_to_dict s b =
     (case author_ref s b of
        None \<Rightarrow> None
      | Some a \<Rightarrow>
          Some \<lparr>bd_id = b_id b, bd_title = b_title b, bd_year = b_year b, bd_isbn = b_isbn b,
                bd_author = (a_id a, a_name a),
                bd_created_at = b_created_at b\<rparr>)"

text \<open>\<^verbatim>\<open>Author.to_dict\<close> with \<^verbatim>\<open>include_books=True\<close>: \<^verbatim>\<open>self.books\<close> are the Books of this Author.\<close>

definition author_to_dict :: "store \<Rightarrow> author \<Rightarrow> author_dict option" where
  "author_to_dict s a =
     (case those (map (book_to_dict s) (filter (\<lambda>b. b_author_id b = a_id a) (books s))) of
        None \<Rightarrow> None
      | Some bs \<Rightarrow> Some \<lparr>ad_id = a_id a, ad_name = a_name a, ad_city = a_city a, ad_books = bs\<rparr>)"

subsection \<open>Book routes\<close>

definition get_book :: "store \<Rightarrow> int \<Rightarrow> response" where
  "get_book s i =
     (case session_get_book s i of
        Inl e \<Rightarrow> internal_error
      | Inr None \<Rightarrow> (404, Error ''Book not found'')
      | Inr (Some book) \<Rightarrow>
          (case book_to_dict s book of
             None \<Rightarrow> internal_error
           | Some d \<Rightarrow> (200, OneBook None d)))"



text \<open>
  The UPDATE that the commit of \<^verbatim>\<open>update_book\<close> flushes, from the attribute values the
  handler assigned (\<open>None\<close> is Python's \<^verbatim>\<open>None\<close>). It raises (\<open>None\<close>) when \<^verbatim>\<open>title\<close> or
  \<^verbatim>\<open>author_id\<close> is NULL (IntegrityError, both columns are NOT NULL), when the \<^verbatim>\<open>year\<close>
  cannot be bound (OverflowError), or when the isbn changes to one that another row holds
  (IntegrityError).
\<close>

definition update_book_row ::
  "store \<Rightarrow> book \<Rightarrow> string option \<Rightarrow> int option \<Rightarrow> int option \<Rightarrow> string option \<Rightarrow> (store \<times> book) option" where
  "update_book_row s book title author_id year isbn =
     (case (title, author_id) of
        (Some t, Some a) \<Rightarrow>
          if (case year of None \<Rightarrow> False | Some y \<Rightarrow> \<not> sqlite_int y) then None
          else if isbn \<noteq> None \<and> isbn \<noteq> b_isbn book \<and>
             find (\<lambda>b. b_id b \<noteq> b_id book \<and> b_isbn b = isbn) (books s) \<noteq> None
          then None
          else
            (let book' = book\<lparr>b_title := t, b_author_id := a, b_year := year, b_isbn := isbn\<rparr>
             in Some (s\<lparr>books := map (\<lambda>b. if b_id b = b_id book then book' else b) (books s)\<rparr>,
                      book'))
      | _ \<Rightarrow> None)"

text \<open>
  Whether \<^verbatim>\<open>db.session.get(Author, data["author_id"])\<close> is true: it finds nothing for
  \<^verbatim>\<open>None\<close>, and raises for an id that cannot be bound.
\<close>

definition author_exists :: "store \<Rightarrow> int option \<Rightarrow> error + bool" where
  "author_exists s v =
     (case v of
        None \<Rightarrow> Inr False
      | Some a \<Rightarrow>
          (case session_get_author s a of
             Inl e \<Rightarrow> Inl e
           | Inr r \<Rightarrow> Inr (r \<noteq> None)))"

text \<open>
  \<^verbatim>\<open>update_book\<close>. Each \<^verbatim>\<open>if k in data\<close> assigns the attribute; an absent key leaves the
  attribute as loaded. The early return for an unknown Author, and the exception for an
  \<^verbatim>\<open>author_id\<close> that cannot be bound, happen before any commit, so the store is as before.
\<close>

definition update_book :: "store \<Rightarrow> int \<Rightarrow> book_data option \<Rightarrow> store \<times> response" where
  "update_book s i data =
     (case session_get_book s i of
        Inl e \<Rightarrow> (s, internal_error)
      | Inr None \<Rightarrow> (s, (404, Error ''Book not found''))
      | Inr (Some book) \<Rightarrow>
          if no_book_data data then (s, (400, Error ''No data provided''))
          else
            (case data of None \<Rightarrow> (s, (400, Error ''No data provided'')) | Some d \<Rightarrow>
               let title = (if present (d_title d) then get_field (d_title d)
                            else Some (b_title book)) in
               (case (if present (d_author_id d) then author_exists s (get_field (d_author_id d))
                      else Inr True) of
                  Inl e \<Rightarrow> (s, internal_error)
                | Inr found \<Rightarrow>
                    if \<not> found then (s, (404, Error ''Author not found''))
                    else
                      (let author_id = (if present (d_author_id d)
                                        then get_field (d_author_id d)
                                        else Some (b_author_id book));
                           year = (if present (d_year d) then get_field (d_year d)
                                   else b_year book);
                           isbn = (if present (d_isbn d) then get_field (d_isbn d)
                                   else b_isbn book)
                       in (case update_book_row s book title author_id year isbn of
                             None \<Rightarrow> (s, internal_error)
                           | Some (s', book') \<Rightarrow>
                               (case book_to_dict s' book' of
                                  None \<Rightarrow> (s', internal_error)
                                | Some bd \<Rightarrow>
                                    (s', (200, OneBook (Some ''Book updated successfully'')
                                            bd))))))))"

definition delete_book :: "store \<Rightarrow> int \<Rightarrow> store \<times> response" where
  "delete_book s i =
     (case session_get_book s i of
        Inl e \<Rightarrow> (s, internal_error)
      | Inr None \<Rightarrow> (s, (404, Error ''Book not found''))
      | Inr (Some book) \<Rightarrow>
          (s\<lparr>books := filter (\<lambda>b. b_id b \<noteq> b_id book) (books s)\<rparr>,
           (200, Message ''Book deleted successfully'')))"

subsection \<open>Author routes\<close>

definition get_author :: "store \<Rightarrow> int \<Rightarrow> response" where
  "get_author s i =
     (case session_get_author s i of
        Inl e \<Rightarrow> internal_error
      | Inr None \<Rightarrow> (404, Error ''Author not found'')
      | Inr (Some author) \<Rightarrow>
          (case author_to_dict s author of
             None \<Rightarrow> internal_error
           | Some d \<Rightarrow> (200, OneAuthor None d)))"



text \<open>
  The UPDATE of an Author: IntegrityError when \<^verbatim>\<open>name\<close> or \<^verbatim>\<open>city\<close> is NULL, or when the
  name changes to one that another row holds.
\<close>

definition update_author_row ::
  "store \<Rightarrow> author \<Rightarrow> string option \<Rightarrow> string option \<Rightarrow> (store \<times> author) option" where
  "update_author_row s author name city =
     (case (name, city) of
        (Some n, Some c) \<Rightarrow>
          if n \<noteq> a_name author \<and>
             find (\<lambda>a. a_id a \<noteq> a_id author \<and> a_name a = n) (authors s) \<noteq> None
          then None
          else
            (let author' = author\<lparr>a_name := n, a_city := c\<rparr>
             in Some (s\<lparr>authors := map (\<lambda>a. if a_id a = a_id author then author' else a)
                                       (authors s)\<rparr>,
                      author'))
      | _ \<Rightarrow> None)"

definition update_author :: "store \<Rightarrow> int \<Rightarrow> author_data option \<Rightarrow> store \<times> response" where
  "update_author s i data =
     (case session_get_author s i of
        Inl e \<Rightarrow> (s, internal_error)
      | Inr None \<Rightarrow> (s, (404, Error ''Author not found''))
      | Inr (Some author) \<Rightarrow>
          if no_author_data data then (s, (400, Error ''No data provided''))
          else
            (case data of None \<Rightarrow> (s, (400, Error ''No data provided'')) | Some d \<Rightarrow>
               let name = (if present (d_name d) then get_field (d_name d)
                           else Some (a_name author));
                   city = (if present (d_city d) then get_field (d_city d)
                           else Some (a_city author))
               in (case update_author_row s author name city of
                     None \<Rightarrow> (s, internal_error)
                   | Some (s', author') \<Rightarrow>
                       (case author_to_dict s' author' of
                          None \<Rightarrow> (s', internal_error)
                        | Some ad \<Rightarrow>
                            (s', (200, OneAuthor (Some ''Author updated successfully'') ad))))))"

text \<open>
  \<^verbatim>\<open>delete_author\<close>. The relationship \<^verbatim>\<open>Author.books\<close> is declared with
  \<^verbatim>\<open>cascade="all, delete-orphan"\<close>: deleting the Author deletes the Books of
  \<^verbatim>\<open>author.books\<close>, the rows whose \<^verbatim>\<open>author_id\<close> is the Author's id.
\<close>

definition delete_author :: "store \<Rightarrow> int \<Rightarrow> store \<times> response" where
  "delete_author s i =
     (case session_get_author s i of
        Inl e \<Rightarrow> (s, internal_error)
      | Inr None \<Rightarrow> (s, (404, Error ''Author not found''))
      | Inr (Some author) \<Rightarrow>
          (s\<lparr>authors := filter (\<lambda>a. a_id a \<noteq> a_id author) (authors s),
             books := filter (\<lambda>b. b_author_id b \<noteq> a_id author) (books s)\<rparr>,
           (200, Message ''Author deleted successfully'')))"

subsection \<open>Query parameters\<close>

text \<open>
  A string parameter is \<open>None\<close> when the query string does not have it. A parameter read
  with \<^verbatim>\<open>type=int\<close> is missing, present with a text that Python's \<^verbatim>\<open>int\<close> rejects, or
  present with an integer; \<^verbatim>\<open>request.args.get\<close> gives the default in the first two cases.
\<close>

datatype int_arg = Missing | Invalid | Parsed int

fun args_get_int :: "int_arg \<Rightarrow> int option" where
  "args_get_int Missing = None"
| "args_get_int Invalid = None"
| "args_get_int (Parsed n) = Some n"

subsection \<open>Search\<close>

text \<open>
  \<^verbatim>\<open>column.ilike(pattern)\<close> compares the lower-cased column with the lower-cased pattern by
  SQL LIKE, where \<^verbatim>\<open>%\<close> stands for any run of characters and \<^verbatim>\<open>_\<close> for any one
  character; the letters A to Z are the ones lower-cased.
\<close>

definition lower_char :: "char \<Rightarrow> char" where
  "lower_char c =
     (if (65::nat) \<le> of_char c \<and> of_char c \<le> (90::nat) then char_of (of_char c + (32::nat)) else c)"

definition lower :: "string \<Rightarrow> string" where
  "lower v = map lower_char v"

fun like :: "string \<Rightarrow> string \<Rightarrow> bool" where
  "like [] [] = True"
| "like [] (c # cs) = False"
| "like (p # ps) [] = (p = CHR ''%'' \<and> like ps [])"
| "like (p # ps) (c # cs) =
     (if p = CHR ''%'' then like ps (c # cs) \<or> like (p # ps) cs
      else (p = CHR ''_'' \<or> p = c) \<and> like ps cs)"

definition ilike :: "string \<Rightarrow> string \<Rightarrow> bool" where
  "ilike column pattern = like (lower pattern) (lower column)"

text \<open>
  \<^verbatim>\<open>search_books\<close>. The query starts as the whole table and each filter narrows it; a
  filter applies when its parameter is true in Python (a non-empty string, an integer
  other than 0). The author filter joins each Book with the Authors of its \<^verbatim>\<open>author_id\<close>.
  After that join \<^verbatim>\<open>filter_by(year=year)\<close> looks \<^verbatim>\<open>year\<close> up on Author, the entity joined
  last, which has no such attribute: InvalidRequestError. Without the join the year
  filters the Books, and running the query raises OverflowError when the year cannot be
  bound. Either exception ends in the 500 response.
\<close>

definition search_books :: "store \<Rightarrow> string option \<Rightarrow> string option \<Rightarrow> int_arg \<Rightarrow> response" where
  "search_books s q author_arg year_arg =
     (let query = books s;
          query = (case q of
                     Some title \<Rightarrow>
                       if title \<noteq> []
                       then filter (\<lambda>b. ilike (b_title b) (''%'' @ title @ ''%'')) query
                       else query
                   | None \<Rightarrow> query);
          joined = (case author_arg of Some author \<Rightarrow> author \<noteq> [] | None \<Rightarrow> False);
          query = (case author_arg of
                     Some author \<Rightarrow>
                       if author \<noteq> []
                       then [b. b \<leftarrow> query, a \<leftarrow> authors s,
                             a_id a = b_author_id b \<and> ilike (a_name a) (''%'' @ author @ ''%'')]
                       else query
                   | None \<Rightarrow> query);
          result = (case args_get_int year_arg of
                      Some year \<Rightarrow>
                        if year \<noteq> 0
                        then (if joined then Inl InvalidRequestError
                              else if \<not> sqlite_int year then Inl OverflowError
                              else Inr (filter (\<lambda>b. b_year b = Some year) query))
                        else Inr query
                    | None \<Rightarrow> Inr query)
      in (case result of
            Inl e \<Rightarrow> internal_error
          | Inr found \<Rightarrow>
              (case those (map (book_to_dict s) found) of
                 None \<Rightarrow> internal_error
               | Some ds \<Rightarrow> (200, Books ds))))"

subsection \<open>Sorting\<close>

text \<open>
  ORDER BY compares column values as SQLite does: NULL before every integer, integers by
  value, every integer before every text, texts byte by byte. A time stamp is compared as
  its number. The sort keeps rows with equal keys in table order.
\<close>

datatype sort_column = ColId | ColTitle | ColYear | ColIsbn | ColCreatedAt

datatype sql_value = SqlNull | SqlInt int | SqlText string

fun text_le :: "string \<Rightarrow> string \<Rightarrow> bool" where
  "text_le [] w = True"
| "text_le (c # cs) [] = False"
| "text_le (c # cs) (d # ds) =
     ((of_char c :: nat) < of_char d \<or> (c = d \<and> text_le cs ds))"

fun sql_le :: "sql_value \<Rightarrow> sql_value \<Rightarrow> bool" where
  "sql_le SqlNull w = True"
| "sql_le (SqlInt m) SqlNull = False"
| "sql_le (SqlInt m) (SqlInt n) = (m \<le> n)"
| "sql_le (SqlInt m) (SqlText w) = True"
| "sql_le (SqlText v) SqlNull = False"
| "sql_le (SqlText v) (SqlInt n) = False"
| "sql_le (SqlText v) (SqlText w) = text_le v w"

fun column_value :: "sort_column \<Rightarrow> book \<Rightarrow> sql_value" where
  "column_value ColId b = SqlInt (b_id b)"
| "column_value ColTitle b = SqlText (b_title b)"
| "column_value ColYear b = (case b_year b of None \<Rightarrow> SqlNull | Some y \<Rightarrow> SqlInt y)"
| "column_value ColIsbn b = (case b_isbn b of None \<Rightarrow> SqlNull | Some v \<Rightarrow> SqlText v)"
| "column_value ColCreatedAt b =
     (case b_created_at b of None \<Rightarrow> SqlNull | Some t \<Rightarrow> SqlInt (int t))"

fun insert_by :: "('a \<Rightarrow> 'a \<Rightarrow> bool) \<Rightarrow> 'a \<Rightarrow> 'a list \<Rightarrow> 'a list" where
  "insert_by le x [] = [x]"
| "insert_by le x (y # ys) = (if le x y then x # y # ys else y # insert_by le x ys)"

definition sort_by :: "('a \<Rightarrow> 'a \<Rightarrow> bool) \<Rightarrow> 'a list \<Rightarrow> 'a list" where
  "sort_by le xs = foldr (insert_by le) xs []"

text \<open>\<^verbatim>\<open>query.order_by(column.asc())\<close> and \<^verbatim>\<open>query.order_by(column.desc())\<close>.\<close>

definition order_by :: "sort_column \<Rightarrow> bool \<Rightarrow> book list \<Rightarrow> book list" where
  "order_by col descending bs =
     (if descending
      then sort_by (\<lambda>x y. sql_le (column_value col y) (column_value col x)) bs
      else sort_by (\<lambda>x y. sql_le (column_value col x) (column_value col y)) bs)"

definition allowed_sorts :: "string \<Rightarrow> sort_column option" where
  "allowed_sorts =
     map_of [(''id'', ColId), (''title'', ColTitle), (''year'', ColYear), (''isbn'', ColIsbn),
             (''created_at'', ColCreatedAt)]"

definition get_books_sorted :: "store \<Rightarrow> string option \<Rightarrow> string option \<Rightarrow> response" where
  "get_books_sorted s sort_arg order_arg =
     (let sort_field = (case sort_arg of None \<Rightarrow> ''id'' | Some v \<Rightarrow> v);
          order = (case order_arg of None \<Rightarrow> ''asc'' | Some v \<Rightarrow> v);
          sort_col = (case allowed_sorts sort_field of None \<Rightarrow> ColId | Some c \<Rightarrow> c);
          query = (if lower order = ''desc'' then order_by sort_col True (books s)
                   else order_by sort_col False (books s))
      in (case those (map (book_to_dict s) query) of
            None \<Rightarrow> internal_error
          | Some ds \<Rightarrow> (200, SortedBooks sort_field order ds)))"

subsection \<open>Pagination\<close>

text \<open>
  \<^verbatim>\<open>query.paginate(page=page, per_page=per_page, error_out=False)\<close> of Flask-SQLAlchemy:
  with \<^verbatim>\<open>error_out=False\<close> a page below 1 becomes 1 and a page size below 1 becomes 20;
  the items are the \<^verbatim>\<open>per_page\<close> rows after the first \<^verbatim>\<open>(page - 1) * per_page\<close>, the total
  is the row count of the query, \<^verbatim>\<open>pages\<close> is 0 for an empty query and the total divided
  by the page size, rounded up, otherwise; \<^verbatim>\<open>has_prev\<close> is \<^verbatim>\<open>page > 1\<close> and \<^verbatim>\<open>has_next\<close>
  is \<^verbatim>\<open>page < pages\<close>. The items are fetched with LIMIT and OFFSET as statement
  parameters: an offset that cannot be bound raises OverflowError.
\<close>

record pagination =
  p_page :: int
  p_per_page :: int
  p_items :: "book list"
  p_total :: nat

definition paginate :: "book list \<Rightarrow> int \<Rightarrow> int \<Rightarrow> error + pagination" where
  "paginate query page per_page =
     (let page = (if page < 1 then 1 else page);
          per_page = (if per_page < 1 then 20 else per_page)
      in if \<not> sqlite_int ((page - 1) * per_page) then Inl OverflowError
         else Inr \<lparr>p_page = page, p_per_page = per_page,
                   p_items = take (nat per_page) (drop (nat ((page - 1) * per_page)) query),
                   p_total = length query\<rparr>)"

definition pages :: "pagination \<Rightarrow> int" where
  "pages p = (if p_total p = 0 then 0 else (int (p_total p) + p_per_page p - 1) div p_per_page p)"

definition has_prev :: "pagination \<Rightarrow> bool" where
  "has_prev p = (p_page p > 1)"

definition has_next :: "pagination \<Rightarrow> bool" where
  "has_next p = (p_page p < pages p)"

definition get_books_paginated :: "store \<Rightarrow> int_arg \<Rightarrow> int_arg \<Rightarrow> response" where
  "get_books_paginated s page_arg per_page_arg =
     (let page = (case args_get_int page_arg of None \<Rightarrow> 1 | Some n \<Rightarrow> n);
          per_page = (case args_get_int per_page_arg of None \<Rightarrow> 5 | Some n \<Rightarrow> n);
          per_page = min per_page 100
      in (case paginate (order_by ColId False (books s)) page per_page of
            Inl e \<Rightarrow> internal_error
          | Inr pagination \<Rightarrow>
              (case those (map (book_to_dict s) (p_items pagination)) of
                 None \<Rightarrow> internal_error
               | Some ds \<Rightarrow>
                   (200, PageOfBooks
                      \<lparr>pg_page = page, pg_per_page = per_page,
                       pg_total_items = p_total pagination, pg_total_pages = pages pagination,
                       pg_has_next = has_next pagination, pg_has_prev = has_prev pagination,
                       pg_books = ds\<rparr>))))"

subsection \<open>The search filters as predicates\<close>

text \<open>
  What the title filter and the author filter of \<^verbatim>\<open>search_books\<close> let through, for one
  Book: a filter that is off passes every Book; the author filter passes a Book when an
  Author row with the Book's \<^verbatim>\<open>author_id\<close> matches the pattern.
\<close>

definition title_passes :: "string option \<Rightarrow> book \<Rightarrow> bool" where
  "title_passes q b =
     (case q of
        Some title \<Rightarrow> title = [] \<or> ilike (b_title b) (''%'' @ title @ ''%'')
      | None \<Rightarrow> True)"

definition author_passes :: "store \<Rightarrow> string option \<Rightarrow> book \<Rightarrow> bool" where
  "author_passes s author_arg b =
     (case author_arg of
        Some author \<Rightarrow>
          author = [] \<or>
          list_ex (\<lambda>a. a_id a = b_author_id b \<and> ilike (a_name a) (''%'' @ author @ ''%''))
            (authors s)
      | None \<Rightarrow> True)"

subsection \<open>Reading a response\<close>

text \<open>The \<^verbatim>\<open>books\<close> array of a response document, empty when it has none.\<close>

fun body_books :: "body \<Rightarrow> book_dict list" where
  "body_books (Books ds) = ds"
| "body_books (SortedBooks sort_field order ds) = ds"
| "body_books (PageOfBooks pg) = pg_books pg"
| "body_books (Error e) = []"
| "body_books (OneBook m d) = []"
| "body_books (OneAuthor m d) = []"
| "body_books (Message m) = []"

text \<open>The page document of a paginated response.\<close>

fun body_page :: "body \<Rightarrow> page_dict option" where
  "body_page (PageOfBooks pg) = Some pg"
| "body_page (Books ds) = None"
| "body_page (SortedBooks sort_field order ds) = None"
| "body_page (Error e) = None"
| "body_page (OneBook m d) = None"
| "body_page (OneAuthor m d) = None"
| "body_page (Message m) = None"

text \<open>
  Referential integrity: every Book row names an Author row. The handlers keep it, and
  \<^verbatim>\<open>Book.to_dict\<close> needs it.
\<close>

definition fk_ok :: "store \<Rightarrow> bool" where
  "fk_ok s = list_all (\<lambda>b. author_ref s b \<noteq> None) (books s)"

subsection \<open>Sample data\<close>

text \<open>
  The rows \<^verbatim>\<open>init_db\<close> of part-4 seeds into an empty database (with 0 as the time of
  seeding), and a students table with one row.
\<close>

definition sample_store :: store where
  "sample_store =
     \<lparr>authors = [\<lparr>a_id = 1, a_name = ''Eric Matthes'', a_city = ''New York''\<rparr>,
                \<lparr>a_id = 2, a_name = ''Miguel Grinberg'', a_city = ''Washington''\<rparr>,
                \<lparr>a_id = 3, a_name = ''Robert C. Martin'', a_city = ''London''\<rparr>],
      books = [\<lparr>b_id = 1, b_title = ''Python Crash Course'', b_year = Some 2019,
                b_isbn = Some ''978-1593279288'', b_created_at = Some 0, b_author_id = 1\<rparr>,
               \<lparr>b_id = 2, b_title = ''Flask Web Development'', b_year = Some 2018,
                b_isbn = Some ''978-1491991732'', b_created_at = Some 0, b_author_id = 2\<rparr>,
               \<lparr>b_id = 3, b_title = ''Clean Code'', b_year = Some 2008,
                b_isbn = Some ''978-0132350884'', b_created_at = Some 0, b_author_id = 3\<rparr>]\<rparr>"

text \<open>A store with one Author and 101 Books, ids 1 to 101.\<close>

definition many_books :: store where
  "many_books =
     \<lparr>authors = [\<lparr>a_id = 1, a_name = ''Eric Matthes'', a_city = ''New York''\<rparr>],
      books = map (\<lambda>n. \<lparr>b_id = int n, b_title = ''Notes'', b_year = None, b_isbn = None,
                          b_created_at = Some 0, b_author_id = 1\<rparr>) [1..<102]\<rparr>"

definition one_student_db :: students_db where
  "one_student_db =
     \<lparr>rows = [\<lparr>s_id = 1, s_name = ''Ann'', s_email = ''ann@example.com'', s_course = ''Flask''\<rparr>],
      seq = 1\<rparr>"

section \<open>Properties of part-1\<close>

lemma length_sample_students: "length sample_students = 5"
  by (simp add: sample_students_def)

text \<open>
  Claim C10. Every request to \<^verbatim>\<open>/add\<close> of part-1 inserts exactly one student: the table
  after the request is the table before it followed by one new row, and that row carries
  the sample at index (row count mod 5) of the five fixed samples. The choice depends on
  the row count only, and it repeats with period five.
\<close>

theorem add_sample_student_cycles:
  "length sample_students = 5 \<and>
   rows (fst (add_sample_student db)) =
     rows db @ [\<lparr>s_id = next_rowid db,
                 s_name = fst (sample_students ! (length (rows db) mod 5)),
                 s_email = fst (snd (sample_students ! (length (rows db) mod 5))),
                 s_course = snd (snd (sample_students ! (length (rows db) mod 5)))\<rparr>] \<and>
   length (rows (fst (add_sample_student db))) = length (rows db) + 1 \<and>
   sample_students ! ((length (rows db) + 5) mod 5) = sample_students ! (length (rows db) mod 5)"
  by (simp add: add_sample_student_def insert_student_def length_sample_students
      split: prod.splits)

section \<open>Auxiliary facts about lists\<close>

lemma find_None_filter: "find P xs = None \<Longrightarrow> filter (\<lambda>x. \<not> P x) xs = xs"
  by (induction xs) (auto split: if_splits)

lemma find_None_map_id: "find P xs = None \<Longrightarrow> map (\<lambda>x. if P x then f x else x) xs = xs"
  by (induction xs) (auto split: if_splits)

lemma find_Some_holds: "find P xs = Some x \<Longrightarrow> P x"
  by (induction xs) (auto split: if_splits)

section \<open>Properties of part-2\<close>

text \<open>
  Claim C8. A POST of the add-student form (all three fields present) whose email equals
  the email of an existing row leaves the table as it is, flashes
  \<^verbatim>\<open>Email already exists!\<close> and redirects to the add form; with an email that no row has,
  the table gains exactly one row, holding the submitted values, and the redirect goes to
  the index.
\<close>

theorem add_student_duplicate_or_fresh:
  assumes "map_of frm ''name'' = Some n" and "map_of frm ''email'' = Some e"
    and "map_of frm ''course'' = Some c"
  shows "add_student db POST frm =
           (if e \<in> s_email ` set (rows db)
            then (db, [(''Email already exists!'', ''danger'')], Redirect ''add_student'')
            else (\<lparr>rows = rows db @ [\<lparr>s_id = next_rowid db, s_name = n, s_email = e, s_course = c\<rparr>],
                   seq = next_rowid db\<rparr>,
                  [(''Student added successfully!'', ''success'')], Redirect ''index''))"
proof (cases "find (\<lambda>r. s_email r = e) (rows db)")
  case None
  then have "e \<notin> s_email ` set (rows db)"
    by (auto simp: find_None_iff)
  with None assms show ?thesis
    by (simp add: add_student_def insert_unique_def insert_student_def)
next
  case (Some r)
  then have "e \<in> s_email ` set (rows db)"
    by (auto simp: find_Some_iff)
  with Some assms show ?thesis
    by (simp add: add_student_def)
qed

theorem add_student_duplicate_or_fresh_witness:
  "add_student one_student_db POST
     [(''name'', ''Bob''), (''email'', ''ann@example.com''), (''course'', ''SQL'')] =
     (one_student_db, [(''Email already exists!'', ''danger'')], Redirect ''add_student'') \<and>
   add_student one_student_db POST
     [(''name'', ''Bob''), (''email'', ''bob@example.com''), (''course'', ''SQL'')] =
     (\<lparr>rows = [\<lparr>s_id = 1, s_name = ''Ann'', s_email = ''ann@example.com'', s_course = ''Flask''\<rparr>,
              \<lparr>s_id = 2, s_name = ''Bob'', s_email = ''bob@example.com'', s_course = ''SQL''\<rparr>],
       seq = 2\<rparr>,
      [(''Student added successfully!'', ''success'')], Redirect ''index'')"
  using add_student_duplicate_or_fresh
          [of "[(''name'', ''Bob''), (''email'', ''ann@example.com''), (''course'', ''SQL'')]"
              "''Bob''" "''ann@example.com''" "''SQL''" one_student_db]
        add_student_duplicate_or_fresh
          [of "[(''name'', ''Bob''), (''email'', ''bob@example.com''), (''course'', ''SQL'')]"
              "''Bob''" "''bob@example.com''" "''SQL''" one_student_db]
  by (simp add: one_student_db_def next_rowid_def)

section \<open>Facts about 64-bit ids and about serialising Books\<close>

lemma session_get_author_Inr:
  "session_get_author s i = Inr r \<longleftrightarrow> sqlite_int i \<and> r = find (\<lambda>a. a_id a = i) (authors s)"
  by (auto simp: session_get_author_def)

lemma book_to_dict_id: "book_to_dict s b = Some d \<Longrightarrow> bd_id d = b_id b"
  by (auto simp: book_to_dict_def split: option.splits)

lemma those_map_ids:
  "those (map (book_to_dict s) bs) = Some ds \<Longrightarrow> map bd_id ds = map b_id bs"
proof (induction bs arbitrary: ds)
  case Nil
  then show ?case by simp
next
  case (Cons b bs)
  then show ?case
    by (auto split: option.splits dest: book_to_dict_id)
qed

lemma those_map_total:
  "list_all (\<lambda>b. author_ref s b \<noteq> None) bs \<Longrightarrow>
   \<exists>ds. those (map (book_to_dict s) bs) = Some ds"
proof (induction bs)
  case Nil
  then show ?case by simp
next
  case (Cons b bs)
  then show ?case
    by (auto simp: book_to_dict_def split: option.splits)
qed

lemma fk_ok_subset:
  "fk_ok s \<Longrightarrow> set bs \<subseteq> set (books s) \<Longrightarrow>
   \<exists>ds. those (map (book_to_dict s) bs) = Some ds"
  by (rule those_map_total) (auto simp: fk_ok_def list_all_iff)

lemma fk_ok_sample_store: "fk_ok sample_store"
  by (simp add: fk_ok_def sample_store_def author_ref_def)

section \<open>Deleting an Author\<close>

text \<open>
  Claim C5. \<^verbatim>\<open>DELETE /api/authors/<id>\<close> on an existing Author removes the Author row
  and every Book whose \<^verbatim>\<open>author_id\<close> is that id: afterwards no Book with that
  \<^verbatim>\<open>author_id\<close> is left, and the Books of the other Authors are the same rows in the same
  order.
\<close>

theorem delete_author_cascades:
  assumes "session_get_author s i = Inr (Some a)"
  shows "delete_author s i =
           (s\<lparr>authors := filter (\<lambda>a. a_id a \<noteq> i) (authors s),
              books := filter (\<lambda>b. b_author_id b \<noteq> i) (books s)\<rparr>,
            (200, Message ''Author deleted successfully'')) \<and>
         filter (\<lambda>b. b_author_id b = i) (books (fst (delete_author s i))) = [] \<and>
         filter (\<lambda>b. b_author_id b \<noteq> i) (books (fst (delete_author s i))) =
           filter (\<lambda>b. b_author_id b \<noteq> i) (books s)"
proof -
  from assms have "find (\<lambda>a. a_id a = i) (authors s) = Some a"
    by (simp add: session_get_author_Inr)
  then have "a_id a = i"
    by (rule find_Some_holds)
  with assms show ?thesis
    by (simp add: delete_author_def)
qed

theorem delete_author_cascades_witness:
  "session_get_author sample_store 2 =
     Inr (Some \<lparr>a_id = 2, a_name = ''Miguel Grinberg'', a_city = ''Washington''\<rparr>) \<and>
   map b_id (books (fst (delete_author sample_store 2))) = [1, 3] \<and>
   filter (\<lambda>b. b_author_id b = 2) (books (fst (delete_author sample_store 2))) = []"
  using delete_author_cascades
          [of sample_store 2 "\<lparr>a_id = 2, a_name = ''Miguel Grinberg'', a_city = ''Washington''\<rparr>"]
  by (simp add: sample_store_def session_get_author_def sqlite_int_def)

section \<open>Searching\<close>

lemma title_filter:
  "(case q of
      Some title \<Rightarrow>
        if title \<noteq> [] then filter (\<lambda>b. ilike (b_title b) (''%'' @ title @ ''%'')) bs else bs
    | None \<Rightarrow> bs) = filter (title_passes q) bs"
  by (auto simp: title_passes_def [abs_def] split: option.splits)

lemma author_join_set:
  "set (case author_arg of
          Some author \<Rightarrow>
            if author \<noteq> []
            then [b. b \<leftarrow> bs, a \<leftarrow> authors s,
                  a_id a = b_author_id b \<and> ilike (a_name a) (''%'' @ author @ ''%'')]
            else bs
        | None \<Rightarrow> bs) = {b \<in> set bs. author_passes s author_arg b}"
  by (auto simp: author_passes_def list_ex_iff split: option.splits)

lemma author_join_off:
  "author_arg = None \<or> author_arg = Some [] \<Longrightarrow>
   (case author_arg of
      Some author \<Rightarrow>
        if author \<noteq> []
        then [b. b \<leftarrow> bs, a \<leftarrow> authors s,
              a_id a = b_author_id b \<and> ilike (a_name a) (''%'' @ author @ ''%'')]
        else bs
    | None \<Rightarrow> bs) = bs"
  by auto

lemma search_books_no_year:
  "search_books s q author_arg Missing =
     (case those (map (book_to_dict s)
             (case author_arg of
                Some author \<Rightarrow>
                  if author \<noteq> []
                  then [b. b \<leftarrow> filter (title_passes q) (books s), a \<leftarrow> authors s,
                        a_id a = b_author_id b \<and> ilike (a_name a) (''%'' @ author @ ''%'')]
                  else filter (title_passes q) (books s)
              | None \<Rightarrow> filter (title_passes q) (books s))) of
        None \<Rightarrow> internal_error
      | Some ds \<Rightarrow> (200, Books ds))"
  by (simp add: search_books_def title_filter Let_def)

lemma search_books_year:
  assumes "author_arg = None \<or> author_arg = Some []" and "y \<noteq> 0" and "sqlite_int y"
  shows "search_books s q author_arg (Parsed y) =
     (case those (map (book_to_dict s)
             (filter (\<lambda>b. b_year b = Some y) (filter (title_passes q) (books s)))) of
        None \<Rightarrow> internal_error
      | Some ds \<Rightarrow> (200, Books ds))"
  using assms by (auto simp: search_books_def title_filter Let_def)

text \<open>
  Claim C9. In \<^verbatim>\<open>GET /api/books/search\<close> a \<^verbatim>\<open>year\<close> parameter that is 0, or that
  does not parse as an integer, gives the response that the same request without a
  \<^verbatim>\<open>year\<close> parameter gives. On a store where every Book has its Author that response is
  200 and lists the Books that pass the title filter and the author filter, whatever
  their year: the returned ids are exactly the ids of those Books, and without an author
  filter they come in table order. A \<^verbatim>\<open>year\<close> other than 0 (that fits in 64 bits, with
  no author filter) does narrow the list to the Books of that year, and together with an
  author filter it ends in the 500 response.
\<close>

theorem search_books_year_zero:
  "search_books s q author_arg (Parsed 0) = search_books s q author_arg Missing \<and>
   search_books s q author_arg Invalid = search_books s q author_arg Missing \<and>
   (fk_ok s \<longrightarrow>
      (\<exists>ds. search_books s q author_arg (Parsed 0) = (200, Books ds) \<and>
            set (map bd_id ds) =
              b_id ` {b \<in> set (books s). title_passes q b \<and> author_passes s author_arg b} \<and>
            (author_arg = None \<or> author_arg = Some [] \<longrightarrow>
               map bd_id ds = map b_id (filter (title_passes q) (books s))))) \<and>
   (fk_ok s \<and> (author_arg = None \<or> author_arg = Some []) \<and> y \<noteq> 0 \<and> sqlite_int y \<longrightarrow>
      (\<exists>ds. search_books s q author_arg (Parsed y) = (200, Books ds) \<and>
            map bd_id ds =
              map b_id (filter (\<lambda>b. title_passes q b \<and> b_year b = Some y) (books s)))) \<and>
   (author_arg = Some author \<and> author \<noteq> [] \<and> y \<noteq> 0 \<longrightarrow>
      search_books s q author_arg (Parsed y) = internal_error)"
proof (intro conjI impI)
  show zero: "search_books s q author_arg (Parsed 0) = search_books s q author_arg Missing"
    by (simp add: search_books_def)
  show "search_books s q author_arg Invalid = search_books s q author_arg Missing"
    by (simp add: search_books_def)
  {
    assume fk: "fk_ok s"
    define found where "found =
        (case author_arg of
           Some author \<Rightarrow>
             if author \<noteq> []
             then [b. b \<leftarrow> filter (title_passes q) (books s), a \<leftarrow> authors s,
                   a_id a = b_author_id b \<and> ilike (a_name a) (''%'' @ author @ ''%'')]
             else filter (title_passes q) (books s)
         | None \<Rightarrow> filter (title_passes q) (books s))"
    have fset: "set found =
        {b \<in> set (books s). title_passes q b \<and> author_passes s author_arg b}"
      unfolding found_def author_join_set by auto
    then have "set found \<subseteq> set (books s)"
      by auto
    with fk have "\<exists>ds. those (map (book_to_dict s) found) = Some ds"
      by (rule fk_ok_subset)
    then obtain ds where ds: "those (map (book_to_dict s) found) = Some ds" ..
    then have ids: "map bd_id ds = map b_id found"
      by (rule those_map_ids)
    have resp: "search_books s q author_arg (Parsed 0) = (200, Books ds)"
      unfolding zero search_books_no_year found_def [symmetric]
      by (simp add: ds)
    have s1: "set (map bd_id ds) =
        b_id ` {b \<in> set (books s). title_passes q b \<and> author_passes s author_arg b}"
      unfolding ids by (simp add: fset)
    have s2: "author_arg = None \<or> author_arg = Some [] \<longrightarrow>
        map bd_id ds = map b_id (filter (title_passes q) (books s))"
    proof
      assume "author_arg = None \<or> author_arg = Some []"
      then have "found = filter (title_passes q) (books s)"
        unfolding found_def by (rule author_join_off)
      with ids show "map bd_id ds = map b_id (filter (title_passes q) (books s))"
        by simp
    qed
    from resp s1 s2
    show "\<exists>ds. search_books s q author_arg (Parsed 0) = (200, Books ds) \<and>
            set (map bd_id ds) =
              b_id ` {b \<in> set (books s). title_passes q b \<and> author_passes s author_arg b} \<and>
            (author_arg = None \<or> author_arg = Some [] \<longrightarrow>
               map bd_id ds = map b_id (filter (title_passes q) (books s)))"
      by (intro exI [of _ ds] conjI)
  }
  {
    assume h: "fk_ok s \<and> (author_arg = None \<or> author_arg = Some []) \<and> y \<noteq> 0 \<and> sqlite_int y"
    define found where
      "found = filter (\<lambda>b. b_year b = Some y) (filter (title_passes q) (books s))"
    have "set found \<subseteq> set (books s)"
      by (auto simp: found_def)
    with h have "\<exists>ds. those (map (book_to_dict s) found) = Some ds"
      by (intro fk_ok_subset) simp_all
    then obtain ds where ds: "those (map (book_to_dict s) found) = Some ds" ..
    then have ids: "map bd_id ds = map b_id found"
      by (rule those_map_ids)
    from h have "search_books s q author_arg (Parsed y) =
        (case those (map (book_to_dict s) found) of
           None \<Rightarrow> internal_error
         | Some ds \<Rightarrow> (200, Books ds))"
      unfolding found_def by (intro search_books_year) simp_all
    then have resp: "search_books s q author_arg (Parsed y) = (200, Books ds)"
      by (simp add: ds)
    have "found = filter (\<lambda>b. title_passes q b \<and> b_year b = Some y) (books s)"
      by (simp add: found_def conj_commute)
    with ids have "map bd_id ds =
        map b_id (filter (\<lambda>b. title_passes q b \<and> b_year b = Some y) (books s))"
      by simp
    with resp
    show "\<exists>ds. search_books s q author_arg (Parsed y) = (200, Books ds) \<and>
            map bd_id ds =
              map b_id (filter (\<lambda>b. title_passes q b \<and> b_year b = Some y) (books s))"
      by (intro exI [of _ ds] conjI)
  }
  {
    assume "author_arg = Some author \<and> author \<noteq> [] \<and> y \<noteq> 0"
    then show "search_books s q author_arg (Parsed y) = internal_error"
      by (simp add: search_books_def)
  }
qed

theorem search_books_year_zero_witness:
  "fk_ok sample_store \<and>
   map bd_id (body_books (snd (search_books sample_store None None (Parsed 0)))) = [1, 2, 3] \<and>
   map bd_id (body_books (snd (search_books sample_store None None Invalid))) = [1, 2, 3] \<and>
   map bd_id (body_books (snd (search_books sample_store None None (Parsed 2019)))) = [1] \<and>
   search_books sample_store None (Some ''eric'') (Parsed 2019) = internal_error"
proof -
  have pass: "filter (title_passes None) (books sample_store) = books sample_store"
    by (simp add: title_passes_def)
  have ids: "map b_id (books sample_store) = [1, 2, 3]"
    and yr: "map b_id (filter (\<lambda>b. title_passes None b \<and> b_year b = Some 2019)
        (books sample_store)) = [1]"
    by (simp_all add: sample_store_def title_passes_def)
  have fits: "sqlite_int 2019"
    by (simp add: sqlite_int_def)
  have eq: "search_books sample_store None None Invalid =
      search_books sample_store None None (Parsed 0)"
    using search_books_year_zero [of sample_store None None] by simp
  from search_books_year_zero [of sample_store None None, THEN conjunct2, THEN conjunct2,
      THEN conjunct1, THEN mp, OF fk_ok_sample_store]
  obtain ds where "search_books sample_store None None (Parsed 0) = (200, Books ds)"
    and "map bd_id ds = map b_id (filter (title_passes None) (books sample_store))"
    by auto
  then have a: "map bd_id (body_books (snd (search_books sample_store None None (Parsed 0)))) =
      [1, 2, 3]"
    by (simp add: pass ids)
  from fk_ok_sample_store fits
    search_books_year_zero [of sample_store None None 2019, THEN conjunct2, THEN conjunct2,
      THEN conjunct2, THEN conjunct1]
  obtain es where "search_books sample_store None None (Parsed 2019) = (200, Books es)"
    and "map bd_id es = map b_id (filter (\<lambda>b. title_passes None b \<and> b_year b = Some 2019)
        (books sample_store))"
    by auto
  then have b: "map bd_id (body_books (snd (search_books sample_store None None
      (Parsed 2019)))) = [1]"
    by (simp add: yr)
  have c: "search_books sample_store None (Some ''eric'') (Parsed 2019) = internal_error"
    using search_books_year_zero [of sample_store None "Some ''eric''" 2019 "''eric''"]
    by simp
  from fk_ok_sample_store a b c show ?thesis
    by (simp add: eq)
qed

section \<open>Unknown ids\<close>

text \<open>
  Claim C7, as stated, fails on the student application: its edit and delete routes never
  answer 404. With one student of id 1 in the table, deleting id 7 redirects to the index
  (302) with the flash of a deletion, editing id 7 by GET renders the edit page (200)
  without a student, and editing id 7 by POST redirects to the index with the flash of an
  update.
\<close>

theorem student_routes_unknown_id_counterexample:
  "find (\<lambda>r. s_id r = 7) (rows one_student_db) = None \<and>
   delete_student one_student_db 7 =
     (one_student_db, [(''Student deleted!'', ''danger'')], Redirect ''index'') \<and>
   edit_student one_student_db GET 7 [] = (one_student_db, [], RenderEdit None) \<and>
   edit_student one_student_db POST 7
      [(''name'', ''Bob''), (''email'', ''bob@example.com''), (''course'', ''SQL'')] =
     (one_student_db, [(''Student updated successfully!'', ''success'')], Redirect ''index'') \<and>
   status_code (Redirect ''index'') = 302 \<and> status_code (RenderEdit None) = 200"
  by (simp add: one_student_db_def delete_student_def delete_rows_def edit_student_def
      select_student_def update_rows_def sqlite_int_def)

text \<open>
  Claim C7, amended. In the API, get, update and delete of a Book or an Author under an
  id below \<open>2^63\<close> that has no row answer 404 with the error envelope and leave the store
  as it is; under an id that does not fit in 64 bits they answer 500 and leave the store as
  it is. In the student application an id without a row gives no 404: for an id below
  \<open>2^63\<close>, delete redirects to the index with the flash \<^verbatim>\<open>Student deleted!\<close>, GET edit
  renders the edit page with no student, and POST edit with a complete form redirects to
  the index with the success flash; for an id that does not fit in 64 bits the three
  answer 500. The table is unchanged in each case.
\<close>

theorem unknown_id_outcomes:
  "(sqlite_int i \<and> find (\<lambda>b. b_id b = i) (books s) = None \<longrightarrow>
      get_book s i = (404, Error ''Book not found'') \<and>
      update_book s i bdata = (s, (404, Error ''Book not found'')) \<and>
      delete_book s i = (s, (404, Error ''Book not found''))) \<and>
   (\<not> sqlite_int i \<longrightarrow>
      get_book s i = (500, Error ''Internal server error'') \<and>
      update_book s i bdata = (s, (500, Error ''Internal server error'')) \<and>
      delete_book s i = (s, (500, Error ''Internal server error''))) \<and>
   (sqlite_int j \<and> find (\<lambda>a. a_id a = j) (authors s) = None \<longrightarrow>
      get_author s j = (404, Error ''Author not found'') \<and>
      update_author s j adata = (s, (404, Error ''Author not found'')) \<and>
      delete_author s j = (s, (404, Error ''Author not found''))) \<and>
   (\<not> sqlite_int j \<longrightarrow>
      get_author s j = (500, Error ''Internal server error'') \<and>
      update_author s j adata = (s, (500, Error ''Internal server error'')) \<and>
      delete_author s j = (s, (500, Error ''Internal server error''))) \<and>
   (sqlite_int k \<and> find (\<lambda>r. s_id r = k) (rows db) = None \<longrightarrow>
      delete_student db k = (db, [(''Student deleted!'', ''danger'')], Redirect ''index'') \<and>
      edit_student db GET k frm = (db, [], RenderEdit None) \<and>
      (map_of frm ''name'' \<noteq> None \<and> map_of frm ''email'' \<noteq> None \<and>
       map_of frm ''course'' \<noteq> None \<longrightarrow>
         edit_student db POST k frm =
           (db, [(''Student updated successfully!'', ''success'')], Redirect ''index''))) \<and>
   (\<not> sqlite_int k \<longrightarrow>
      delete_student db k = (db, [], ServerError) \<and>
      edit_student db GET k frm = (db, [], ServerError) \<and>
      (map_of frm ''name'' \<noteq> None \<and> map_of frm ''email'' \<noteq> None \<and>
       map_of frm ''course'' \<noteq> None \<longrightarrow>
         edit_student db POST k frm = (db, [], ServerError)))"
proof (intro conjI impI)
  assume "sqlite_int i \<and> find (\<lambda>b. b_id b = i) (books s) = None"
  then have "session_get_book s i = Inr None"
    by (simp add: session_get_book_def)
  then show "get_book s i = (404, Error ''Book not found'')"
    and "update_book s i bdata = (s, (404, Error ''Book not found''))"
    and "delete_book s i = (s, (404, Error ''Book not found''))"
    by (simp_all add: get_book_def update_book_def delete_book_def)
next
  assume "\<not> sqlite_int i"
  then have "session_get_book s i = Inl OverflowError"
    by (simp add: session_get_book_def)
  then show "get_book s i = (500, Error ''Internal server error'')"
    and "update_book s i bdata = (s, (500, Error ''Internal server error''))"
    and "delete_book s i = (s, (500, Error ''Internal server error''))"
    by (simp_all add: get_book_def update_book_def delete_book_def internal_error_def)
next
  assume "sqlite_int j \<and> find (\<lambda>a. a_id a = j) (authors s) = None"
  then have "session_get_author s j = Inr None"
    by (simp add: session_get_author_def)
  then show "get_author s j = (404, Error ''Author not found'')"
    and "update_author s j adata = (s, (404, Error ''Author not found''))"
    and "delete_author s j = (s, (404, Error ''Author not found''))"
    by (simp_all add: get_author_def update_author_def delete_author_def)
next
  assume "\<not> sqlite_int j"
  then have "session_get_author s j = Inl OverflowError"
    by (simp add: session_get_author_def)
  then show "get_author s j = (500, Error ''Internal server error'')"
    and "update_author s j adata = (s, (500, Error ''Internal server error''))"
    and "delete_author s j = (s, (500, Error ''Internal server error''))"
    by (simp_all add: get_author_def update_author_def delete_author_def internal_error_def)
next
  assume h: "sqlite_int k \<and> find (\<lambda>r. s_id r = k) (rows db) = None"
  then have none: "find (\<lambda>r. s_id r = k) (rows db) = None"
    by simp
  then have "filter (\<lambda>r. s_id r \<noteq> k) (rows db) = rows db"
    by (rule find_None_filter)
  with h show "delete_student db k =
      (db, [(''Student deleted!'', ''danger'')], Redirect ''index'')"
    by (simp add: delete_student_def delete_rows_def)
  from h show "edit_student db GET k frm = (db, [], RenderEdit None)"
    by (simp add: edit_student_def select_student_def)
  assume "map_of frm ''name'' \<noteq> None \<and> map_of frm ''email'' \<noteq> None \<and>
          map_of frm ''course'' \<noteq> None"
  moreover from none
  have "map (\<lambda>r. if s_id r = k then r\<lparr>s_name := n, s_email := e, s_course := c\<rparr> else r) (rows db)
          = rows db" for n e c
    by (rule find_None_map_id)
  ultimately show "edit_student db POST k frm =
           (db, [(''Student updated successfully!'', ''success'')], Redirect ''index'')"
    using h by (auto simp: edit_student_def update_rows_def)
next
  assume h: "\<not> sqlite_int k"
  then show "delete_student db k = (db, [], ServerError)"
    by (simp add: delete_student_def delete_rows_def)
  from h show "edit_student db GET k frm = (db, [], ServerError)"
    by (simp add: edit_student_def select_student_def)
  assume "map_of frm ''name'' \<noteq> None \<and> map_of frm ''email'' \<noteq> None \<and>
          map_of frm ''course'' \<noteq> None"
  with h show "edit_student db POST k frm = (db, [], ServerError)"
    by (auto simp: edit_student_def update_rows_def)
qed

theorem unknown_id_outcomes_witness:
  "sqlite_int 9 \<and> find (\<lambda>b. b_id b = 9) (books sample_store) = None \<and>
   get_book sample_store 9 = (404, Error ''Book not found'') \<and>
   update_book sample_store 9 None = (sample_store, (404, Error ''Book not found'')) \<and>
   delete_book sample_store 9 = (sample_store, (404, Error ''Book not found'')) \<and>
   find (\<lambda>a. a_id a = 9) (authors sample_store) = None \<and>
   get_author sample_store 9 = (404, Error ''Author not found'') \<and>
   update_author sample_store 9 None = (sample_store, (404, Error ''Author not found'')) \<and>
   delete_author sample_store 9 = (sample_store, (404, Error ''Author not found'')) \<and>
   find (\<lambda>r. s_id r = 9) (rows one_student_db) = None \<and>
   delete_student one_student_db 9 =
     (one_student_db, [(''Student deleted!'', ''danger'')], Redirect ''index'') \<and>
   edit_student one_student_db GET 9
     [(''name'', ''Bob''), (''email'', ''bob@example.com''), (''course'', ''SQL'')] =
     (one_student_db, [], RenderEdit None) \<and>
   edit_student one_student_db POST 9
     [(''name'', ''Bob''), (''email'', ''bob@example.com''), (''course'', ''SQL'')] =
     (one_student_db, [(''Student updated successfully!'', ''success'')], Redirect ''index'') \<and>
   \<not> sqlite_int (2 ^ 63) \<and>
   get_book sample_store (2 ^ 63) = (500, Error ''Internal server error'') \<and>
   delete_author sample_store (2 ^ 63) = (sample_store, (500, Error ''Internal server error'')) \<and>
   delete_student one_student_db (2 ^ 63) = (one_student_db, [], ServerError)"
proof -
  have fit: "sqlite_int 9" and big: "\<not> sqlite_int (2 ^ 63)"
    by (simp_all add: sqlite_int_def)
  have b: "find (\<lambda>b. b_id b = 9) (books sample_store) = None"
    and a: "find (\<lambda>a. a_id a = 9) (authors sample_store) = None"
    by (simp_all add: sample_store_def)
  have r: "find (\<lambda>r. s_id r = 9) (rows one_student_db) = None"
    by (simp add: one_student_db_def)
  have low: "get_book sample_store 9 = (404, Error ''Book not found'') \<and>
   update_book sample_store 9 None = (sample_store, (404, Error ''Book not found'')) \<and>
   delete_book sample_store 9 = (sample_store, (404, Error ''Book not found'')) \<and>
   get_author sample_store 9 = (404, Error ''Author not found'') \<and>
   update_author sample_store 9 None = (sample_store, (404, Error ''Author not found'')) \<and>
   delete_author sample_store 9 = (sample_store, (404, Error ''Author not found'')) \<and>
   delete_student one_student_db 9 =
     (one_student_db, [(''Student deleted!'', ''danger'')], Redirect ''index'') \<and>
   edit_student one_student_db GET 9
     [(''name'', ''Bob''), (''email'', ''bob@example.com''), (''course'', ''SQL'')] =
     (one_student_db, [], RenderEdit None) \<and>
   edit_student one_student_db POST 9
     [(''name'', ''Bob''), (''email'', ''bob@example.com''), (''course'', ''SQL'')] =
     (one_student_db, [(''Student updated successfully!'', ''success'')], Redirect ''index'')"
    using fit b a r
      unknown_id_outcomes [of 9 sample_store None 9 None 9 one_student_db
        "[(''name'', ''Bob''), (''email'', ''bob@example.com''), (''course'', ''SQL'')]"]
    by simp
  have high: "get_book sample_store (2 ^ 63) = (500, Error ''Internal server error'') \<and>
   delete_author sample_store (2 ^ 63) = (sample_store, (500, Error ''Internal server error'')) \<and>
   delete_student one_student_db (2 ^ 63) = (one_student_db, [], ServerError)"
    using big
      unknown_id_outcomes [of "2 ^ 63" sample_store None "2 ^ 63" None "2 ^ 63" one_student_db "[]"]
    by simp
  from fit big b a r low high show ?thesis
    by simp
qed

section \<open>Creating a Book\<close>







section \<open>Sorting\<close>

lemma insert_by_insort_key:
  "insert_by (\<lambda>x y. f x \<le> f y) x xs = insort_key f x xs"
  by (induction xs) auto

lemma sort_by_sort_key: "sort_by (\<lambda>x y. f x \<le> f y) xs = sort_key f xs"
  by (induction xs) (auto simp: sort_by_def insert_by_insort_key)

lemma order_by_id_asc: "order_by ColId False bs = sort_key b_id bs"
  by (simp add: order_by_def sort_by_sort_key)

lemma order_by_id_desc: "order_by ColId True bs = sort_key (\<lambda>b. - b_id b) bs"
proof -
  have "sort_by (\<lambda>x y. - b_id x \<le> - b_id y) bs = sort_key (\<lambda>b. - b_id b) bs"
    by (rule sort_by_sort_key)
  then show ?thesis
    by (simp add: order_by_def)
qed

lemma sorted_rev_neg:
  fixes xs :: "int list"
  shows "sorted (map uminus xs) \<Longrightarrow> sorted (rev xs)"
  by (induction xs) (auto simp: sorted_append)

lemma order_by_id_mset: "mset (order_by ColId descending bs) = mset bs"
  by (cases descending) (simp_all add: order_by_id_asc order_by_id_desc)

lemma order_by_id_asc_sorted: "map b_id (order_by ColId False bs) = sort (map b_id bs)"
proof -
  have "sorted (map b_id (sort_key b_id bs))"
    by (rule sorted_sort_key)
  moreover have "mset (map b_id (sort_key b_id bs)) = mset (map b_id bs)"
    by simp
  ultimately have "sort (map b_id bs) = map b_id (sort_key b_id bs)"
    by (intro properties_for_sort)
  then show ?thesis
    by (simp add: order_by_id_asc)
qed

lemma order_by_id_desc_sorted: "rev (map b_id (order_by ColId True bs)) = sort (map b_id bs)"
proof -
  let ?q = "sort_key (\<lambda>b. - b_id b) bs"
  have "sorted (map (\<lambda>b. - b_id b) ?q)"
    by (rule sorted_sort_key)
  then have "sorted (map uminus (map b_id ?q))"
    by (simp add: comp_def)
  then have "sorted (rev (map b_id ?q))"
    by (rule sorted_rev_neg)
  moreover have "mset (rev (map b_id ?q)) = mset (map b_id bs)"
    by simp
  ultimately have "sort (map b_id bs) = rev (map b_id ?q)"
    by (intro properties_for_sort)
  then show ?thesis
    by (simp add: order_by_id_desc)
qed

lemma lower_DESC: "lower ''DESC'' = ''desc''"
  by code_simp

lemma lower_desc: "lower ''desc'' = ''desc''"
  by code_simp

lemma lower_asc: "lower ''asc'' = ''asc''"
  by code_simp

text \<open>
  Claim C2, as stated, fails for \<^verbatim>\<open>order=desc\<close>: with a \<^verbatim>\<open>sort\<close> value outside the
  whitelist the three sample Books come back with ids 3, 2, 1.
\<close>

theorem sorted_fallback_desc_counterexample:
  "allowed_sorts ''price'' = None \<and>
   map bd_id (body_books (snd (get_books_sorted sample_store (Some ''price'') (Some ''desc''))))
     = [3, 2, 1]"
proof -
  have a: "allowed_sorts ''price'' = None"
    by (simp add: allowed_sorts_def)
  have q: "order_by ColId True (books sample_store) =
      [books sample_store ! 2, books sample_store ! 1, books sample_store ! 0]"
    by (simp add: order_by_def sort_by_def sample_store_def)
  have "map bd_id (body_books (snd (get_books_sorted sample_store (Some ''price'') (Some ''desc''))))
     = [3, 2, 1]"
    unfolding get_books_sorted_def Let_def
    by (simp add: a lower_desc q)
      (simp add: sample_store_def book_to_dict_def author_ref_def)
  with a show ?thesis by (rule conjI)
qed

text \<open>
  Claim C2, amended. For \<^verbatim>\<open>GET /api/books/sorted\<close> with a \<^verbatim>\<open>sort\<close> value that is not
  one of \<^verbatim>\<open>id\<close>, \<^verbatim>\<open>title\<close>, \<^verbatim>\<open>year\<close>, \<^verbatim>\<open>isbn\<close>, \<^verbatim>\<open>created_at\<close> (and a store
  where every Book has its Author): the response is 200, echoes both parameters and lists
  all Books ordered by \<^verbatim>\<open>id\<close>; the ids are ascending unless the \<^verbatim>\<open>order\<close> parameter
  in lower case is \<^verbatim>\<open>desc\<close>, and descending when it is.
\<close>

theorem get_books_sorted_fallback:
  assumes "allowed_sorts sort_field = None" and "fk_ok s"
  shows "\<exists>ds. get_books_sorted s (Some sort_field) order_arg =
           (200, SortedBooks sort_field (case order_arg of None \<Rightarrow> ''asc'' | Some v \<Rightarrow> v) ds) \<and>
         (if lower (case order_arg of None \<Rightarrow> ''asc'' | Some v \<Rightarrow> v) = ''desc''
          then rev (map bd_id ds) = sort (map b_id (books s))
          else map bd_id ds = sort (map b_id (books s)))"
proof -
  define order where "order = (case order_arg of None \<Rightarrow> ''asc'' | Some v \<Rightarrow> v)"
  define descending where "descending = (lower order = ''desc'')"
  define query where "query = order_by ColId descending (books s)"
  have "mset query = mset (books s)"
    unfolding query_def by (rule order_by_id_mset)
  then have "set query = set (books s)"
    by (rule mset_eq_setD)
  then have "set query \<subseteq> set (books s)"
    by simp
  with assms(2) have "\<exists>ds. those (map (book_to_dict s) query) = Some ds"
    by (rule fk_ok_subset)
  then obtain ds where ds: "those (map (book_to_dict s) query) = Some ds" ..
  then have ids: "map bd_id ds = map b_id query"
    by (rule those_map_ids)
  have q: "(if lower order = ''desc'' then order_by ColId True (books s)
            else order_by ColId False (books s)) = query"
    by (simp add: query_def descending_def)
  have resp: "get_books_sorted s (Some sort_field) order_arg =
           (200, SortedBooks sort_field order ds)"
    unfolding get_books_sorted_def Let_def order_def [symmetric]
    by (simp only: option.case assms(1) q ds)
  have ord: "if descending
          then rev (map bd_id ds) = sort (map b_id (books s))
          else map bd_id ds = sort (map b_id (books s))"
    unfolding ids query_def
    by (cases descending) (simp_all only: order_by_id_asc_sorted order_by_id_desc_sorted if_True if_False)
  show ?thesis
    apply (rule exI [of _ ds])
    unfolding order_def [symmetric] descending_def [symmetric]
    using resp ord by (rule conjI)
qed

theorem get_books_sorted_fallback_witness:
  "allowed_sorts ''price'' = None \<and> fk_ok sample_store \<and>
   map bd_id (body_books (snd (get_books_sorted sample_store (Some ''price'') (Some ''DESC''))))
     = [3, 2, 1] \<and>
   map bd_id (body_books (snd (get_books_sorted sample_store (Some ''price'') None)))
     = [1, 2, 3]"
proof -
  have a: "allowed_sorts ''price'' = None"
    by (simp add: allowed_sorts_def)
  have ids: "sort (map b_id (books sample_store)) = [1, 2, 3]"
    by (simp add: sample_store_def)
  from get_books_sorted_fallback [OF a fk_ok_sample_store, of "Some ''DESC''"]
  obtain ds where "get_books_sorted sample_store (Some ''price'') (Some ''DESC'') =
      (200, SortedBooks ''price'' ''DESC'' ds)" and "rev (map bd_id ds) = [1, 2, 3]"
    by (auto simp: lower_DESC ids)
  then have d: "map bd_id (body_books (snd (get_books_sorted sample_store (Some ''price'')
      (Some ''DESC'')))) = [3, 2, 1]"
    by (simp add: rev_swap)
  from get_books_sorted_fallback [OF a fk_ok_sample_store, of None]
  obtain es where "get_books_sorted sample_store (Some ''price'') None =
      (200, SortedBooks ''price'' ''asc'' es)" and "map bd_id es = [1, 2, 3]"
    by (auto simp: lower_asc ids)
  then have e: "map bd_id (body_books (snd (get_books_sorted sample_store (Some ''price'')
      None))) = [1, 2, 3]"
    by simp
  from a fk_ok_sample_store d e show ?thesis
    by simp
qed

section \<open>Pagination\<close>

lemma paginate_Inl:
  "\<not> sqlite_int (((if page < 1 then 1 else page) - 1) * (if per_page < 1 then 20 else per_page)) \<Longrightarrow>
   paginate q page per_page = Inl OverflowError"
  by (simp add: paginate_def Let_def)

lemma paginate_Inr:
  "sqlite_int (((if page < 1 then 1 else page) - 1) * (if per_page < 1 then 20 else per_page)) \<Longrightarrow>
   paginate q page per_page =
     Inr \<lparr>p_page = (if page < 1 then 1 else page),
          p_per_page = (if per_page < 1 then 20 else per_page),
          p_items = take (nat (if per_page < 1 then 20 else per_page))
            (drop (nat (((if page < 1 then 1 else page) - 1) *
                        (if per_page < 1 then 20 else per_page))) q),
          p_total = length q\<rparr>"
  by (simp add: paginate_def Let_def)

text \<open>
  Claim C3, as stated, fails for a page number so large that the OFFSET of the query does
  not fit in 64 bits: the answer is the 500 response, which carries no page size, totals
  or flags. With the default page size 5 the page \<open>2^62\<close> is such a page.
\<close>

theorem get_books_paginated_overflow_counterexample:
  "get_books_paginated sample_store (Parsed (2 ^ 62)) Missing =
     (500, Error ''Internal server error'') \<and>
   body_page (snd (get_books_paginated sample_store (Parsed (2 ^ 62)) Missing)) = None"
  by (simp add: get_books_paginated_def paginate_def sqlite_int_def internal_error_def Let_def)

text \<open>
  Claim C3, amended. For \<^verbatim>\<open>GET /api/books/paginated\<close> (on a store where every Book has its
  Author), let \<open>page\<close> be the \<^verbatim>\<open>page\<close> parameter, 1 when it is absent or not an integer,
  \<open>per_page\<close> the \<^verbatim>\<open>per_page\<close> parameter, 5 when it is absent or not an integer, cut down
  to 100, \<open>eff\<close> the effective page size (\<open>per_page\<close>, 20 when that is below 1) and
  \<open>offset = (max page 1 - 1) * eff\<close>. The effective page size never exceeds 100. When the
  offset fits in 64 bits the answer is 200 with a page document that reports \<open>page\<close> and
  \<open>per_page\<close> (so \<^verbatim>\<open>per_page=200\<close> is reported as 100), lists the at most 100 Books that
  follow the first \<open>offset\<close> Books in \<^verbatim>\<open>id\<close> order, and carries the total number of Books,
  the number of pages and the has-next and has-prev flags. When the offset does not fit
  the answer is 500.
\<close>

theorem get_books_paginated_clamped:
  assumes "fk_ok s"
    and "page = (case page_arg of Parsed n \<Rightarrow> n | _ \<Rightarrow> 1)"
    and "per_page = min (case per_page_arg of Parsed n \<Rightarrow> n | _ \<Rightarrow> 5) 100"
    and "eff = (if per_page < 1 then 20 else per_page)"
    and "offset = ((if page < 1 then 1 else page) - 1) * eff"
  shows "eff \<le> 100 \<and>
         (\<not> sqlite_int offset \<longrightarrow>
            get_books_paginated s page_arg per_page_arg = (500, Error ''Internal server error'')) \<and>
         (sqlite_int offset \<longrightarrow>
            (\<exists>pg. get_books_paginated s page_arg per_page_arg = (200, PageOfBooks pg) \<and>
                  pg_page pg = page \<and> pg_per_page pg = per_page \<and>
                  map bd_id (pg_books pg) =
                    take (nat eff) (drop (nat offset) (sort (map b_id (books s)))) \<and>
                  length (pg_books pg) \<le> 100 \<and>
                  pg_total_items pg = length (books s) \<and>
                  pg_total_pages pg =
                    (if books s = [] then 0 else (int (length (books s)) + eff - 1) div eff) \<and>
                  pg_has_next pg = ((if page < 1 then 1 else page) < pg_total_pages pg) \<and>
                  pg_has_prev pg = (page > 1)))"
proof (intro conjI impI)
  define query where "query = order_by ColId False (books s)"
  have page_eq: "(case args_get_int page_arg of None \<Rightarrow> 1 | Some n \<Rightarrow> n) = page"
    by (cases page_arg) (simp_all add: assms(2))
  have per_eq: "min (case args_get_int per_page_arg of None \<Rightarrow> 5 | Some n \<Rightarrow> n) 100 = per_page"
    by (cases per_page_arg) (simp_all add: assms(3))
  have unfold: "get_books_paginated s page_arg per_page_arg =
      (case paginate query page per_page of
         Inl e \<Rightarrow> internal_error
       | Inr pagination \<Rightarrow>
           (case those (map (book_to_dict s) (p_items pagination)) of
              None \<Rightarrow> internal_error
            | Some ds \<Rightarrow>
                (200, PageOfBooks
                   \<lparr>pg_page = page, pg_per_page = per_page,
                    pg_total_items = p_total pagination, pg_total_pages = pages pagination,
                    pg_has_next = has_next pagination, pg_has_prev = has_prev pagination,
                    pg_books = ds\<rparr>)))"
    unfolding get_books_paginated_def Let_def page_eq per_eq query_def ..
  show eff_le: "eff \<le> 100"
    by (simp add: assms(3) assms(4))
  {
    assume "\<not> sqlite_int offset"
    then have "paginate query page per_page = Inl OverflowError"
      unfolding assms(5) assms(4) by (rule paginate_Inl)
    then show "get_books_paginated s page_arg per_page_arg =
        (500, Error ''Internal server error'')"
      unfolding unfold by (simp add: internal_error_def)
  }
  {
    assume fits: "sqlite_int offset"
    define pagination where "pagination =
        \<lparr>p_page = (if page < 1 then 1 else page), p_per_page = eff,
         p_items = take (nat eff) (drop (nat offset) query), p_total = length query\<rparr>"
    from fits have pag: "paginate query page per_page = Inr pagination"
      unfolding assms(5) assms(4) pagination_def by (rule paginate_Inr)
    have qlen: "length query = length (books s)"
      using order_by_id_mset [of False "books s"]
      unfolding query_def by (rule mset_eq_length)
    have "set query = set (books s)"
      using order_by_id_mset [of False "books s"]
      unfolding query_def by (rule mset_eq_setD)
    moreover have "set (p_items pagination) \<subseteq> set query"
      unfolding pagination_def
      by (simp add: subset_trans [OF set_take_subset set_drop_subset])
    ultimately have "set (p_items pagination) \<subseteq> set (books s)"
      by simp
    with assms(1) have "\<exists>ds. those (map (book_to_dict s) (p_items pagination)) = Some ds"
      by (rule fk_ok_subset)
    then obtain ds where ds: "those (map (book_to_dict s) (p_items pagination)) = Some ds" ..
    define pg where "pg = \<lparr>pg_page = page, pg_per_page = per_page,
        pg_total_items = p_total pagination, pg_total_pages = pages pagination,
        pg_has_next = has_next pagination, pg_has_prev = has_prev pagination, pg_books = ds\<rparr>"
    have resp: "get_books_paginated s page_arg per_page_arg = (200, PageOfBooks pg)"
      unfolding unfold pag by (simp add: ds pg_def)
    have p1: "pg_page pg = page" and p2: "pg_per_page pg = per_page"
      by (simp_all add: pg_def)
    have items: "map bd_id (pg_books pg) =
        take (nat eff) (drop (nat offset) (sort (map b_id (books s))))"
    proof -
      have "map bd_id ds = map b_id (p_items pagination)"
        using ds by (rule those_map_ids)
      also have "\<dots> = take (nat eff) (drop (nat offset) (map b_id query))"
        unfolding pagination_def by (simp only: pagination.simps take_map drop_map)
      finally show ?thesis
        by (simp add: pg_def query_def order_by_id_asc_sorted)
    qed
    have len: "length (pg_books pg) \<le> 100"
    proof -
      have "length (map bd_id (pg_books pg)) \<le> nat eff"
        unfolding items by simp
      with eff_le show ?thesis by simp
    qed
    have tot: "pg_total_items pg = length (books s)"
      by (simp add: pg_def pagination_def qlen)
    have pgs: "pg_total_pages pg =
        (if books s = [] then 0 else (int (length (books s)) + eff - 1) div eff)"
      by (simp add: pg_def pages_def pagination_def qlen)
    have nxt: "pg_has_next pg = ((if page < 1 then 1 else page) < pg_total_pages pg)"
      by (simp add: pg_def has_next_def pagination_def)
    have prv: "pg_has_prev pg = (page > 1)"
      by (simp add: pg_def has_prev_def pagination_def)
    from resp p1 p2 items len tot pgs nxt prv
    show "\<exists>pg. get_books_paginated s page_arg per_page_arg = (200, PageOfBooks pg) \<and>
                  pg_page pg = page \<and> pg_per_page pg = per_page \<and>
                  map bd_id (pg_books pg) =
                    take (nat eff) (drop (nat offset) (sort (map b_id (books s)))) \<and>
                  length (pg_books pg) \<le> 100 \<and>
                  pg_total_items pg = length (books s) \<and>
                  pg_total_pages pg =
                    (if books s = [] then 0 else (int (length (books s)) + eff - 1) div eff) \<and>
                  pg_has_next pg = ((if page < 1 then 1 else page) < pg_total_pages pg) \<and>
                  pg_has_prev pg = (page > 1)"
      by (intro exI [of _ pg] conjI)
  }
qed

lemma fk_ok_many_books: "fk_ok many_books"
  by (simp add: fk_ok_def many_books_def list_all_iff author_ref_def)

lemma many_books_ids: "sort (map b_id (books many_books)) = map int [1..<102]"
proof -
  have "map b_id (books many_books) = map int [1..<102]"
    by (simp add: many_books_def comp_def)
  moreover have "sorted (map int [1..<102])"
    by (simp add: sorted_map)
  ultimately show ?thesis
    by (simp add: sort_key_id_if_sorted)
qed

theorem get_books_paginated_clamped_witness:
  "fk_ok many_books \<and> length (books many_books) = 101 \<and>
   map_option pg_per_page
     (body_page (snd (get_books_paginated many_books Missing (Parsed 200)))) = Some 100 \<and>
   map_option pg_page
     (body_page (snd (get_books_paginated many_books Missing (Parsed 200)))) = Some 1 \<and>
   length (body_books (snd (get_books_paginated many_books Missing (Parsed 200)))) = 100 \<and>
   map_option pg_total_items
     (body_page (snd (get_books_paginated many_books Missing (Parsed 200)))) = Some 101 \<and>
   map_option pg_total_pages
     (body_page (snd (get_books_paginated many_books Missing (Parsed 200)))) = Some 2 \<and>
   map_option pg_has_next
     (body_page (snd (get_books_paginated many_books Missing (Parsed 200)))) = Some True \<and>
   map_option pg_has_prev
     (body_page (snd (get_books_paginated many_books Missing (Parsed 200)))) = Some False \<and>
   map_option pg_per_page
     (body_page (snd (get_books_paginated many_books (Parsed 2) Missing))) = Some 5 \<and>
   map bd_id (body_books (snd (get_books_paginated many_books (Parsed 2) Missing))) =
     [6, 7, 8, 9, 10] \<and>
   get_books_paginated many_books (Parsed (2 ^ 62)) Missing =
     (500, Error ''Internal server error'')"
proof -
  have len: "length (books many_books) = 101" and ne: "books many_books \<noteq> []"
    by (simp_all add: many_books_def)
  have fit: "sqlite_int 0" "sqlite_int 5" and big: "\<not> sqlite_int ((2 ^ 62 - 1) * 5)"
    by (simp_all add: sqlite_int_def)
  from get_books_paginated_clamped [OF fk_ok_many_books, of 1 Missing 100 "Parsed 200" 100 0]
  obtain pg where r: "get_books_paginated many_books Missing (Parsed 200) = (200, PageOfBooks pg)"
    and p: "pg_page pg = 1" and pp: "pg_per_page pg = 100"
    and bs: "map bd_id (pg_books pg) =
        take (nat 100) (drop (nat 0) (sort (map b_id (books many_books))))"
    and ti: "pg_total_items pg = length (books many_books)"
    and tp: "pg_total_pages pg =
        (if books many_books = [] then 0
         else (int (length (books many_books)) + 100 - 1) div 100)"
    and hn: "pg_has_next pg = ((if (1::int) < 1 then 1 else 1) < pg_total_pages pg)"
    and hp: "pg_has_prev pg = ((1::int) > 1)"
    using fit by auto
  from bs have "length (map bd_id (pg_books pg)) = 100"
    by (simp add: many_books_ids)
  then have bl: "length (pg_books pg) = 100"
    by simp
  from tp have tp': "pg_total_pages pg = 2"
    by (simp add: len ne)
  from hn have hn': "pg_has_next pg = True"
    by (simp add: tp')
  from hp have hp': "pg_has_prev pg = False"
    by simp
  from get_books_paginated_clamped [OF fk_ok_many_books, of 2 "Parsed 2" 5 Missing 5 5]
  obtain pg2 where r2: "get_books_paginated many_books (Parsed 2) Missing = (200, PageOfBooks pg2)"
    and pp2: "pg_per_page pg2 = 5"
    and bs2: "map bd_id (pg_books pg2) =
        take (nat 5) (drop (nat 5) (sort (map b_id (books many_books))))"
    using fit by auto
  have "take 5 (drop 5 (map int [1..<102])) = [6, 7, 8, 9, 10]"
    by (simp add: drop_map take_map upt_conv_Cons)
  with bs2 have bs2': "map bd_id (pg_books pg2) = [6, 7, 8, 9, 10]"
    by (simp add: many_books_ids)
  have ov: "get_books_paginated many_books (Parsed (2 ^ 62)) Missing =
      (500, Error ''Internal server error'')"
    using big get_books_paginated_clamped [OF fk_ok_many_books,
        of "2 ^ 62" "Parsed (2 ^ 62)" 5 Missing 5 "(2 ^ 62 - 1) * 5"]
    by simp
  show ?thesis
    using fk_ok_many_books len ov
    by (simp add: r p pp bl ti tp' hn' hp' r2 pp2 bs2')
qed

section \<open>Updating a Book\<close>

lemma find_map_replace:
  assumes "find (\<lambda>b. b_id b = i) bs = Some bk" and "b_id bk' = i"
  shows "find (\<lambda>b. b_id b = i) (map (\<lambda>b. if b_id b = i then bk' else b) bs) = Some bk'"
  using assms by (induction bs) (auto split: if_splits)

lemma filter_map_replace:
  assumes "b_id bk' = i"
  shows "filter (\<lambda>b. b_id b \<noteq> i) (map (\<lambda>b. if b_id b = i then bk' else b) bs) =
         filter (\<lambda>b. b_id b \<noteq> i) bs"
  using assms by (induction bs) auto

lemma update_book_row_Some:
  assumes "update_book_row s book title author_id year isbn = Some (s', book')"
  shows "\<exists>t a. title = Some t \<and> author_id = Some a \<and>
           book' = book\<lparr>b_title := t, b_author_id := a, b_year := year, b_isbn := isbn\<rparr> \<and>
           s' = s\<lparr>books := map (\<lambda>b. if b_id b = b_id book then book' else b) (books s)\<rparr>"
  using assms
  by (cases title; cases author_id) (auto simp: update_book_row_def Let_def split: if_splits)

lemma author_exists_True:
  "author_exists s v = Inr True \<longleftrightarrow>
     (\<exists>a. v = Some a \<and> sqlite_int a \<and> find (\<lambda>r. a_id r = a) (authors s) \<noteq> None)"
  by (cases v) (auto simp: author_exists_def session_get_author_def)

lemma update_book_unfold:
  assumes "session_get_book s i = Inr (Some book)" and "\<not> no_book_data (Some d)"
  shows "update_book s i (Some d) =
     (case (if present (d_author_id d) then author_exists s (get_field (d_author_id d))
            else Inr True) of
        Inl e \<Rightarrow> (s, internal_error)
      | Inr found \<Rightarrow>
          if \<not> found then (s, (404, Error ''Author not found''))
          else (case update_book_row s book
                  (if present (d_title d) then get_field (d_title d) else Some (b_title book))
                  (if present (d_author_id d) then get_field (d_author_id d)
                   else Some (b_author_id book))
                  (if present (d_year d) then get_field (d_year d) else b_year book)
                  (if present (d_isbn d) then get_field (d_isbn d) else b_isbn book) of
                  None \<Rightarrow> (s, internal_error)
                | Some (s', book') \<Rightarrow>
                    (case book_to_dict s' book' of
                       None \<Rightarrow> (s', internal_error)
                     | Some bd \<Rightarrow>
                         (s', (200, OneBook (Some ''Book updated successfully'') bd)))))"
  unfolding update_book_def Let_def
  by (simp only: assms sum.case option.case if_False)

lemma get_field_Some: "get_field f = Some v \<longleftrightarrow> f = Val v"
  by (cases f) auto

text \<open>
  Claim C4, as stated, fails for a target id that does not fit in 64 bits: no Book has
  the id \<open>2^63\<close>, and the answer to the PUT is 500, not 404.
\<close>

theorem update_book_overflow_counterexample:
  "find (\<lambda>b. b_id b = 2 ^ 63) (books sample_store) = None \<and>
   update_book sample_store (2 ^ 63)
     (Some \<lparr>d_title = Val ''T'', d_year = Absent, d_isbn = Absent, d_author_id = Absent,
            d_other = []\<rparr>) =
     (sample_store, (500, Error ''Internal server error''))"
  by (simp add: update_book_def session_get_book_def sqlite_int_def internal_error_def
      sample_store_def)

text \<open>
  Claim C4, amended. \<^verbatim>\<open>PUT /api/books/<id>\<close> with an id below \<open>2^63\<close>: when no Book has the
  id the answer is 404 and the store is as before. When the Book exists and the body is a
  non-empty object, the Book found under the id afterwards has the same \<^verbatim>\<open>id\<close> and
  \<^verbatim>\<open>created_at\<close>, and keeps the value of each of \<^verbatim>\<open>title\<close>, \<^verbatim>\<open>year\<close>, \<^verbatim>\<open>isbn\<close>,
  \<^verbatim>\<open>author_id\<close> that the body does not name; its \<^verbatim>\<open>author_id\<close> differs from the old one
  only if the body supplies it and an Author with that id exists; when the answer is 200
  each named field holds the supplied value; the Authors and all other Books are
  unchanged. With an id that does not fit in 64 bits the answer is 500 and the store is as
  before.
\<close>

theorem update_book_partial:
  "(sqlite_int i \<and> find (\<lambda>b. b_id b = i) (books s) = None \<longrightarrow>
      update_book s i data = (s, (404, Error ''Book not found''))) \<and>
   (\<not> sqlite_int i \<longrightarrow>
      update_book s i data = (s, (500, Error ''Internal server error''))) \<and>
   (sqlite_int i \<and> find (\<lambda>b. b_id b = i) (books s) = Some book \<and>
    \<not> no_book_data (Some d) \<longrightarrow>
      (\<exists>book'.
         find (\<lambda>b. b_id b = i) (books (fst (update_book s i (Some d)))) = Some book' \<and>
         b_id book' = b_id book \<and> b_created_at book' = b_created_at book \<and>
         (\<not> present (d_title d) \<longrightarrow> b_title book' = b_title book) \<and>
         (\<not> present (d_year d) \<longrightarrow> b_year book' = b_year book) \<and>
         (\<not> present (d_isbn d) \<longrightarrow> b_isbn book' = b_isbn book) \<and>
         (\<not> present (d_author_id d) \<longrightarrow> b_author_id book' = b_author_id book) \<and>
         (b_author_id book' \<noteq> b_author_id book \<longrightarrow>
            d_author_id d = Val (b_author_id book') \<and>
            find (\<lambda>a. a_id a = b_author_id book') (authors s) \<noteq> None) \<and>
         (fst (snd (update_book s i (Some d))) = 200 \<longrightarrow>
            (present (d_title d) \<longrightarrow> d_title d = Val (b_title book')) \<and>
            (present (d_year d) \<longrightarrow> get_field (d_year d) = b_year book') \<and>
            (present (d_isbn d) \<longrightarrow> get_field (d_isbn d) = b_isbn book') \<and>
            (present (d_author_id d) \<longrightarrow> d_author_id d = Val (b_author_id book')))) \<and>
      authors (fst (update_book s i (Some d))) = authors s \<and>
      filter (\<lambda>b. b_id b \<noteq> i) (books (fst (update_book s i (Some d)))) =
        filter (\<lambda>b. b_id b \<noteq> i) (books s))"
proof (intro conjI impI)
  assume "sqlite_int i \<and> find (\<lambda>b. b_id b = i) (books s) = None"
  then show "update_book s i data = (s, (404, Error ''Book not found''))"
    by (simp add: update_book_def session_get_book_def)
next
  assume "\<not> sqlite_int i"
  then show "update_book s i data = (s, (500, Error ''Internal server error''))"
    by (simp add: update_book_def session_get_book_def internal_error_def)
next
  assume h: "sqlite_int i \<and> find (\<lambda>b. b_id b = i) (books s) = Some book \<and>
      \<not> no_book_data (Some d)"
  then have found: "find (\<lambda>b. b_id b = i) (books s) = Some book"
    by simp
  then have bid: "b_id book = i"
    by (rule find_Some_holds)
  from h have got: "session_get_book s i = Inr (Some book)"
    by (simp add: session_get_book_def)
  define title where
    "title = (if present (d_title d) then get_field (d_title d) else Some (b_title book))"
  define author_id where
    "author_id = (if present (d_author_id d) then get_field (d_author_id d)
                  else Some (b_author_id book))"
  define year where "year = (if present (d_year d) then get_field (d_year d) else b_year book)"
  define isbn where "isbn = (if present (d_isbn d) then get_field (d_isbn d) else b_isbn book)"
  define checked where
    "checked = (if present (d_author_id d) then author_exists s (get_field (d_author_id d))
                else Inr True)"
  have unfold: "update_book s i (Some d) =
     (case checked of
        Inl e \<Rightarrow> (s, internal_error)
      | Inr found \<Rightarrow>
          if \<not> found then (s, (404, Error ''Author not found''))
          else (case update_book_row s book title author_id year isbn of
                  None \<Rightarrow> (s, internal_error)
                | Some (s', book') \<Rightarrow>
                    (case book_to_dict s' book' of
                       None \<Rightarrow> (s', internal_error)
                     | Some bd \<Rightarrow>
                         (s', (200, OneBook (Some ''Book updated successfully'') bd)))))"
    unfolding title_def author_id_def year_def isbn_def checked_def
    using got h by (intro update_book_unfold) simp_all
  consider (same) "fst (update_book s i (Some d)) = s"
      and "fst (snd (update_book s i (Some d))) \<noteq> 200"
    | (changed) s' book' where "checked = Inr True"
      and "update_book_row s book title author_id year isbn = Some (s', book')"
      and "fst (update_book s i (Some d)) = s'"
  proof (cases checked)
    case (Inl e)
    with unfold have "update_book s i (Some d) = (s, internal_error)"
      by simp
    then show ?thesis
      by (intro same) (simp_all add: internal_error_def)
  next
    case (Inr ok)
    show ?thesis
    proof (cases ok)
      case False
      with unfold Inr have "update_book s i (Some d) = (s, (404, Error ''Author not found''))"
        by simp
      then show ?thesis
        by (intro same) simp_all
    next
      case True
      show ?thesis
      proof (cases "update_book_row s book title author_id year isbn")
        case None
        with unfold Inr True have "update_book s i (Some d) = (s, internal_error)"
          by simp
        then show ?thesis
          by (intro same) (simp_all add: internal_error_def)
      next
        case (Some p)
        obtain s' book' where p: "p = (s', book')"
          by (cases p)
        with unfold Inr True Some have "fst (update_book s i (Some d)) = s'"
          by (simp split: option.splits)
        with Inr True Some p show ?thesis
          by (intro changed) simp_all
      qed
    qed
  qed
  note cases = this
  show "\<exists>book'.
         find (\<lambda>b. b_id b = i) (books (fst (update_book s i (Some d)))) = Some book' \<and>
         b_id book' = b_id book \<and> b_created_at book' = b_created_at book \<and>
         (\<not> present (d_title d) \<longrightarrow> b_title book' = b_title book) \<and>
         (\<not> present (d_year d) \<longrightarrow> b_year book' = b_year book) \<and>
         (\<not> present (d_isbn d) \<longrightarrow> b_isbn book' = b_isbn book) \<and>
         (\<not> present (d_author_id d) \<longrightarrow> b_author_id book' = b_author_id book) \<and>
         (b_author_id book' \<noteq> b_author_id book \<longrightarrow>
            d_author_id d = Val (b_author_id book') \<and>
            find (\<lambda>a. a_id a = b_author_id book') (authors s) \<noteq> None) \<and>
         (fst (snd (update_book s i (Some d))) = 200 \<longrightarrow>
            (present (d_title d) \<longrightarrow> d_title d = Val (b_title book')) \<and>
            (present (d_year d) \<longrightarrow> get_field (d_year d) = b_year book') \<and>
            (present (d_isbn d) \<longrightarrow> get_field (d_isbn d) = b_isbn book') \<and>
            (present (d_author_id d) \<longrightarrow> d_author_id d = Val (b_author_id book')))"
  proof (cases rule: cases)
    case same
    with found show ?thesis
      by (intro exI [of _ book]) simp
  next
    case (changed s' book')
    from changed(2) obtain t a where t: "title = Some t" and a: "author_id = Some a"
      and bk: "book' = book\<lparr>b_title := t, b_author_id := a, b_year := year, b_isbn := isbn\<rparr>"
      and s': "s' = s\<lparr>books := map (\<lambda>b. if b_id b = b_id book then book' else b) (books s)\<rparr>"
      using update_book_row_Some by blast
    have "b_id book' = i"
      by (simp add: bk bid)
    with found have "find (\<lambda>b. b_id b = i) (map (\<lambda>b. if b_id b = i then book' else b) (books s))
        = Some book'"
      by (rule find_map_replace)
    then have get: "find (\<lambda>b. b_id b = i) (books (fst (update_book s i (Some d)))) = Some book'"
      by (simp add: changed(3) s' bid)
    have f1: "\<not> present (d_title d) \<longrightarrow> b_title book' = b_title book"
      using t by (auto simp: bk title_def split: if_splits)
    have f2: "\<not> present (d_year d) \<longrightarrow> b_year book' = b_year book"
      by (auto simp: bk year_def split: if_splits)
    have f3: "\<not> present (d_isbn d) \<longrightarrow> b_isbn book' = b_isbn book"
      by (auto simp: bk isbn_def split: if_splits)
    have f4: "\<not> present (d_author_id d) \<longrightarrow> b_author_id book' = b_author_id book"
      using a by (auto simp: bk author_id_def split: if_splits)
    have g1: "present (d_title d) \<longrightarrow> d_title d = Val (b_title book')"
      using t by (auto simp: bk title_def get_field_Some split: if_splits)
    have g2: "present (d_year d) \<longrightarrow> get_field (d_year d) = b_year book'"
      by (auto simp: bk year_def split: if_splits)
    have g3: "present (d_isbn d) \<longrightarrow> get_field (d_isbn d) = b_isbn book'"
      by (auto simp: bk isbn_def split: if_splits)
    have g4: "present (d_author_id d) \<longrightarrow>
        d_author_id d = Val (b_author_id book') \<and>
        find (\<lambda>a. a_id a = b_author_id book') (authors s) \<noteq> None"
    proof
      assume pr: "present (d_author_id d)"
      with a have ga: "get_field (d_author_id d) = Some a"
        by (auto simp: author_id_def split: if_splits)
      from pr changed(1) have "author_exists s (get_field (d_author_id d)) = Inr True"
        by (simp add: checked_def)
      with ga have "find (\<lambda>r. a_id r = a) (authors s) \<noteq> None"
        by (simp add: author_exists_True)
      with ga show "d_author_id d = Val (b_author_id book') \<and>
          find (\<lambda>a. a_id a = b_author_id book') (authors s) \<noteq> None"
        by (simp add: bk get_field_Some)
    qed
    have f5: "b_author_id book' \<noteq> b_author_id book \<longrightarrow>
            d_author_id d = Val (b_author_id book') \<and>
            find (\<lambda>a. a_id a = b_author_id book') (authors s) \<noteq> None"
      using f4 g4 by blast
    have ids: "b_id book' = b_id book" "b_created_at book' = b_created_at book"
      by (simp_all add: bk)
    show ?thesis
      using get ids f1 f2 f3 f4 f5 g1 g2 g3 g4
      by (intro exI [of _ book']) blast
  qed
  show "authors (fst (update_book s i (Some d))) = authors s"
  proof (cases rule: cases)
    case same
    then show ?thesis by simp
  next
    case (changed s' book')
    from changed(2) have "authors s' = authors s"
      using update_book_row_Some by fastforce
    with changed(3) show ?thesis by simp
  qed
  show "filter (\<lambda>b. b_id b \<noteq> i) (books (fst (update_book s i (Some d)))) =
        filter (\<lambda>b. b_id b \<noteq> i) (books s)"
  proof (cases rule: cases)
    case same
    then show ?thesis by simp
  next
    case (changed s' book')
    from changed(2) obtain t a where
      bk: "book' = book\<lparr>b_title := t, b_author_id := a, b_year := year, b_isbn := isbn\<rparr>"
      and s': "s' = s\<lparr>books := map (\<lambda>b. if b_id b = b_id book then book' else b) (books s)\<rparr>"
      using update_book_row_Some by blast
    have "b_id book' = i"
      by (simp add: bk bid)
    then have "filter (\<lambda>b. b_id b \<noteq> i) (map (\<lambda>b. if b_id b = i then book' else b) (books s)) =
         filter (\<lambda>b. b_id b \<noteq> i) (books s)"
      by (rule filter_map_replace)
    then show ?thesis
      by (simp add: changed(3) s' bid)
  qed
qed

theorem update_book_partial_witness:
  "sqlite_int 9 \<and> find (\<lambda>b. b_id b = 9) (books sample_store) = None \<and>
   update_book sample_store 9 None = (sample_store, (404, Error ''Book not found'')) \<and>
   update_book sample_store (2 ^ 63) None =
     (sample_store, (500, Error ''Internal server error'')) \<and>
   map_option b_title (find (\<lambda>b. b_id b = 2) (books sample_store)) =
     Some ''Flask Web Development'' \<and>
   map_option b_title (find (\<lambda>b. b_id b = 2) (books (fst (update_book sample_store 2
      (Some \<lparr>d_title = Val ''Flask 2'', d_year = Null, d_isbn = Absent, d_author_id = Absent,
             d_other = []\<rparr>))))) = Some ''Flask 2'' \<and>
   map_option b_year (find (\<lambda>b. b_id b = 2) (books (fst (update_book sample_store 2
      (Some \<lparr>d_title = Val ''Flask 2'', d_year = Null, d_isbn = Absent, d_author_id = Absent,
             d_other = []\<rparr>))))) = Some None \<and>
   map_option b_isbn (find (\<lambda>b. b_id b = 2) (books (fst (update_book sample_store 2
      (Some \<lparr>d_title = Val ''Flask 2'', d_year = Null, d_isbn = Absent, d_author_id = Absent,
             d_other = []\<rparr>))))) = Some (Some ''978-1491991732'') \<and>
   map_option b_author_id (find (\<lambda>b. b_id b = 2) (books (fst (update_book sample_store 2
      (Some \<lparr>d_title = Val ''Flask 2'', d_year = Null, d_isbn = Absent, d_author_id = Absent,
             d_other = []\<rparr>))))) = Some 2 \<and>
   map_option b_created_at (find (\<lambda>b. b_id b = 2) (books (fst (update_book sample_store 2
      (Some \<lparr>d_title = Val ''Flask 2'', d_year = Null, d_isbn = Absent, d_author_id = Absent,
             d_other = []\<rparr>))))) = Some (Some 0) \<and>
   map b_id (filter (\<lambda>b. b_id b \<noteq> 2) (books (fst (update_book sample_store 2
      (Some \<lparr>d_title = Val ''Flask 2'', d_year = Null, d_isbn = Absent, d_author_id = Absent,
             d_other = []\<rparr>))))) = [1, 3]"
proof -
  define d where "d = \<lparr>d_title = Val ''Flask 2'', d_year = Null, d_isbn = Absent,
      d_author_id = Absent, d_other = []\<rparr>"
  define old where "old = \<lparr>b_id = 2, b_title = ''Flask Web Development'', b_year = Some 2018,
      b_isbn = Some ''978-1491991732'', b_created_at = Some 0, b_author_id = 2\<rparr>"
  have fit: "sqlite_int 9" "sqlite_int 2" and big: "\<not> sqlite_int (2 ^ 63)"
    by (simp_all add: sqlite_int_def)
  have none: "find (\<lambda>b. b_id b = 9) (books sample_store) = None"
    by (simp add: sample_store_def)
  have some: "find (\<lambda>b. b_id b = 2) (books sample_store) = Some old"
    by (simp add: sample_store_def old_def)
  have nd: "\<not> no_book_data (Some d)"
    by (simp add: no_book_data_def d_def)
  have got: "session_get_book sample_store 2 = Inr (Some old)"
    using fit some by (simp add: session_get_book_def)
  have ok: "fst (snd (update_book sample_store 2 (Some d))) = 200"
    by (simp add: update_book_def got nd)
      (simp add: d_def old_def update_book_row_def sample_store_def book_to_dict_def
        author_ref_def Let_def)
  have others: "map b_id (filter (\<lambda>b. b_id b \<noteq> 2) (books sample_store)) = [1, 3]"
    by (simp add: sample_store_def)
  have nf: "update_book sample_store 9 None = (sample_store, (404, Error ''Book not found''))"
    using fit none update_book_partial [of 9 sample_store None] by simp
  have ov: "update_book sample_store (2 ^ 63) None =
      (sample_store, (500, Error ''Internal server error''))"
    using big update_book_partial [of "2 ^ 63" sample_store None] by simp
  from fit some nd ok update_book_partial [of 2 sample_store "Some d" old d]
  obtain book' where
    "find (\<lambda>b. b_id b = 2) (books (fst (update_book sample_store 2 (Some d)))) = Some book'"
    and "b_created_at book' = b_created_at old" and "b_isbn book' = b_isbn old"
    and "b_author_id book' = b_author_id old" and "d_title d = Val (b_title book')"
    and "get_field (d_year d) = b_year book'"
    and "filter (\<lambda>b. b_id b \<noteq> 2) (books (fst (update_book sample_store 2 (Some d)))) =
        filter (\<lambda>b. b_id b \<noteq> 2) (books sample_store)"
    by (auto simp: d_def)
  then show ?thesis
    using fit none nf ov some others
    unfolding d_def [symmetric]
    by (simp add: old_def) (simp add: d_def)
qed

section \<open>Creating a record and fetching it\<close>















end
